theory Spec2Isabelle
  imports Main "HOL-Library.AList"
begin

section \<open>JavaScript values\<close>

text \<open>
  The two service modules (\<^verbatim>\<open>nhl.service.js\<close> and the NBA module) read an untyped JSON
  document and build object literals from it. Values are modelled as a datatype. An
  object is an association list in property order, read through \<open>map_of\<close>. An array
  carries its elements and, second, the named properties that an assignment such as
  \<^verbatim>\<open>game.id = ...\<close> may add to it (empty in every parsed document). Numbers are the
  integer-valued ones that \<^verbatim>\<open>String\<close> renders in plain decimal, \<open>NaN\<close> apart: ids,
  years, months, days and limits; \<open>-0\<close> is not told from \<open>0\<close>.
\<close>

datatype jsval =
    Undefined
  | Null
  | Bool bool
  | Num int
  | NaN
  | Str string
  | Arr "jsval list" "(string \<times> jsval) list"
  | Obj "(string \<times> jsval) list"

datatype error = TypeError | TransportError

subsection \<open>ToString\<close>

definition digit_char :: "nat \<Rightarrow> char" where
  "digit_char n = ''0123456789'' ! n"

function show_nat :: "nat \<Rightarrow> string" where
  "show_nat n = (if n < 10 then [digit_char n] else show_nat (n div 10) @ [digit_char (n mod 10)])"
  by pat_completeness auto
termination
  by (relation "measure id") auto

declare show_nat.simps [simp del]

definition show_int :: "int \<Rightarrow> string" where
  "show_int i = (if i < 0 then CHR ''-'' # show_nat (nat (- i)) else show_nat (nat i))"

fun join_comma :: "string list \<Rightarrow> string" where
  "join_comma [] = []"
| "join_comma [s] = s"
| "join_comma (s # t # ss) = s @ '','' @ join_comma (t # ss)"

text \<open>
  \<^verbatim>\<open>String(v)\<close>, as a template literal and \<^verbatim>\<open>"0" + v\<close> apply it. An array joins its
  elements with commas, \<^verbatim>\<open>null\<close> and \<^verbatim>\<open>undefined\<close> elements rendering as the empty
  string; a plain object renders as \<^verbatim>\<open>[object Object]\<close>.
\<close>

fun toStr :: "jsval \<Rightarrow> string" where
  "toStr Undefined = ''undefined''"
| "toStr Null = ''null''"
| "toStr (Bool b) = (if b then ''true'' else ''false'')"
| "toStr (Num n) = show_int n"
| "toStr NaN = ''NaN''"
| "toStr (Str s) = s"
| "toStr (Arr xs ps) =
     join_comma (map (\<lambda>x. if x = Undefined \<or> x = Null then [] else toStr x) xs)"
| "toStr (Obj kvs) = ''[object Object]''"

subsection \<open>parseInt\<close>

definition isWhite :: "char \<Rightarrow> bool" where
  "isWhite c = (c \<in> set [CHR '' '', CHR 0x09, CHR 0x0A, CHR 0x0B, CHR 0x0C, CHR 0x0D])"

definition digit_of :: "nat \<Rightarrow> char \<Rightarrow> nat option" where
  "digit_of R c =
     (let n = (of_char c :: nat) in
      if 48 \<le> n \<and> n \<le> 57 then (if n - 48 < R then Some (n - 48) else None)
      else if R = 16 \<and> 97 \<le> n \<and> n \<le> 102 then Some (n - 87)
      else if R = 16 \<and> 65 \<le> n \<and> n \<le> 70 then Some (n - 55)
      else None)"

text \<open>
  The longest prefix of radix-\<open>R\<close> digits, read left to right; \<open>None\<close> when the
  prefix is empty.
\<close>

fun parseDigits :: "nat \<Rightarrow> string \<Rightarrow> nat option \<Rightarrow> nat option" where
  "parseDigits R [] acc = acc"
| "parseDigits R (c # cs) acc =
     (case digit_of R c of
        None \<Rightarrow> acc
      | Some d \<Rightarrow> parseDigits R cs (Some ((case acc of None \<Rightarrow> 0 | Some a \<Rightarrow> a) * R + d)))"

text \<open>
  \<^verbatim>\<open>parseInt(v)\<close> with no radix: the argument is converted to a string, leading white
  space is dropped, a sign is read, a \<^verbatim>\<open>0x\<close> prefix selects radix 16, and the digits
  that follow are the value. No digit at all gives \<open>NaN\<close>.
\<close>

definition parseIntStr :: "string \<Rightarrow> jsval" where
  "parseIntStr s =
     (let s1 = dropWhile isWhite s;
          sign = (if take 1 s1 = ''-'' then - 1 else (1::int));
          s2 = (if take 1 s1 = ''+'' \<or> take 1 s1 = ''-'' then drop 1 s1 else s1);
          hex = (take 2 s2 = ''0x'' \<or> take 2 s2 = ''0X'');
          s3 = (if hex then drop 2 s2 else s2)
      in case parseDigits (if hex then 16 else 10) s3 None of
           None \<Rightarrow> NaN
         | Some m \<Rightarrow> Num (sign * int m))"

definition parseInt :: "jsval \<Rightarrow> jsval" where
  "parseInt v = parseIntStr (toStr v)"

subsection \<open>Property access\<close>

text \<open>
  \<^verbatim>\<open>v.k\<close> for the property names the services use (none of them a built-in such
  as \<^verbatim>\<open>length\<close>): reading a property of \<^verbatim>\<open>undefined\<close> or \<^verbatim>\<open>null\<close> throws a
  TypeError, an absent property reads as \<^verbatim>\<open>undefined\<close>, and so does any property of
  a string, number or boolean.
\<close>

fun getProp :: "jsval \<Rightarrow> string \<Rightarrow> error + jsval" where
  "getProp Undefined k = Inl TypeError"
| "getProp Null k = Inl TypeError"
| "getProp (Obj kvs) k = Inr (case map_of kvs k of None \<Rightarrow> Undefined | Some v \<Rightarrow> v)"
| "getProp (Arr xs ps) k = Inr (case map_of ps k of None \<Rightarrow> Undefined | Some v \<Rightarrow> v)"
| "getProp v k = Inr Undefined"

text \<open>\<^verbatim>\<open>v[i]\<close> for a literal index \<open>i\<close>.\<close>

fun getIndex :: "jsval \<Rightarrow> nat \<Rightarrow> error + jsval" where
  "getIndex Undefined i = Inl TypeError"
| "getIndex Null i = Inl TypeError"
| "getIndex (Arr xs ps) i = Inr (if i < length xs then xs ! i else Undefined)"
| "getIndex (Obj kvs) i =
     Inr (case map_of kvs (show_nat i) of None \<Rightarrow> Undefined | Some v \<Rightarrow> v)"
| "getIndex (Str s) i = Inr (if i < length s then Str [s ! i] else Undefined)"
| "getIndex v i = Inr Undefined"

datatype accessor = Field string | Index nat

fun access :: "jsval \<Rightarrow> accessor \<Rightarrow> error + jsval" where
  "access v (Field k) = getProp v k"
| "access v (Index i) = getIndex v i"

text \<open>
  A member chain such as \<^verbatim>\<open>res.data.header.competitions[0].competitors\<close>, read left to
  right; the first failing step throws.
\<close>

fun getPath :: "jsval \<Rightarrow> accessor list \<Rightarrow> error + jsval" where
  "getPath v [] = Inr v"
| "getPath v (a # as) = (case access v a of Inl e \<Rightarrow> Inl e | Inr w \<Rightarrow> getPath w as)"

definition mapR :: "('a \<Rightarrow> 'b) \<Rightarrow> error + 'a \<Rightarrow> error + 'b" where
  "mapR f r = (case r of Inl e \<Rightarrow> Inl e | Inr v \<Rightarrow> Inr (f v))"

text \<open>
  An object literal evaluates its property values in order; the first one that throws
  aborts the literal. The result has every key of the literal, also those whose value
  is \<^verbatim>\<open>undefined\<close>.
\<close>

fun evalFields :: "(string \<times> (error + jsval)) list \<Rightarrow> error + (string \<times> jsval) list" where
  "evalFields [] = Inr []"
| "evalFields ((k, r) # fs) =
     (case r of
        Inl e \<Rightarrow> Inl e
      | Inr v \<Rightarrow> (case evalFields fs of Inl e \<Rightarrow> Inl e | Inr kvs \<Rightarrow> Inr ((k, v) # kvs)))"

definition objLit :: "(string \<times> (error + jsval)) list \<Rightarrow> error + jsval" where
  "objLit fs = mapR Obj (evalFields fs)"

text \<open>
  \<^verbatim>\<open>v.k = x\<close>. On \<^verbatim>\<open>undefined\<close> or \<^verbatim>\<open>null\<close> it throws. On a string, number or
  boolean it throws in strict code (the NHL file is an ES module) and does nothing in
  sloppy code (the NBA file is a CommonJS module).
\<close>

fun setProp :: "bool \<Rightarrow> jsval \<Rightarrow> string \<Rightarrow> jsval \<Rightarrow> error + jsval" where
  "setProp strict Undefined k x = Inl TypeError"
| "setProp strict Null k x = Inl TypeError"
| "setProp strict (Obj kvs) k x = Inr (Obj (AList.update k x kvs))"
| "setProp strict (Arr xs ps) k x = Inr (Arr xs (AList.update k x ps))"
| "setProp strict v k x = (if strict then Inl TypeError else Inr v)"

text \<open>
  A destructured parameter \<^verbatim>\<open>{ k = dflt }\<close>: the argument must not be \<^verbatim>\<open>undefined\<close>
  or \<^verbatim>\<open>null\<close>; the default is taken when the property reads as \<^verbatim>\<open>undefined\<close>.
\<close>

definition destructure :: "jsval \<Rightarrow> string \<Rightarrow> jsval \<Rightarrow> error + jsval" where
  "destructure arg k dflt =
     (case getProp arg k of Inl e \<Rightarrow> Inl e | Inr v \<Rightarrow> Inr (if v = Undefined then dflt else v))"

text \<open>Truthiness, as \<^verbatim>\<open>&&\<close> tests it.\<close>

fun truthy :: "jsval \<Rightarrow> bool" where
  "truthy Undefined = False"
| "truthy Null = False"
| "truthy (Bool b) = b"
| "truthy (Num n) = (n \<noteq> 0)"
| "truthy NaN = False"
| "truthy (Str s) = (s \<noteq> [])"
| "truthy (Arr xs ps) = True"
| "truthy (Obj kvs) = True"

fun keysOf :: "jsval \<Rightarrow> string list" where
  "keysOf (Obj kvs) = map fst kvs"
| "keysOf (Arr xs ps) = map show_nat [0..<length xs] @ map fst ps"
| "keysOf v = []"

section \<open>Requests and the transport\<close>

text \<open>
  What \<^verbatim>\<open>axios.get(baseUrl, { params })\<close> is given: the URL and the parameter mapping.
\<close>

record get_request =
  url :: string
  params :: "(string \<times> jsval) list"

text \<open>
  What the awaited call yields: the response object of the HTTP client, whose properties
  are \<^verbatim>\<open>data\<close> (the decoded body), \<^verbatim>\<open>status\<close>, \<^verbatim>\<open>statusText\<close>, \<^verbatim>\<open>headers\<close>,
  \<^verbatim>\<open>config\<close> and \<^verbatim>\<open>request\<close>.
\<close>

record axios_response =
  data :: jsval
  status :: int
  statusText :: string
  headers :: jsval
  config :: jsval
  request :: jsval

definition resObj :: "axios_response \<Rightarrow> jsval" where
  "resObj r = Obj [(''data'', data r), (''status'', Num (status r)),
                   (''statusText'', Str (statusText r)), (''headers'', headers r),
                   (''config'', config r), (''request'', request r)]"

text \<open>
  The surroundings of a call: the transport, which answers a request with a response or
  fails, and the calendar year that \<^verbatim>\<open>new Date().getFullYear()\<close> reads.
\<close>

record env =
  transport :: "get_request \<Rightarrow> error + axios_response"
  currentYear :: int

definition axios_get :: "env \<Rightarrow> get_request \<Rightarrow> error + jsval" where
  "axios_get e req = mapR resObj (transport e req)"

definition bindR :: "error + 'a \<Rightarrow> ('a \<Rightarrow> error + 'b) \<Rightarrow> error + 'b" where
  "bindR r f = (case r of Inl e \<Rightarrow> Inl e | Inr v \<Rightarrow> f v)"

subsection \<open>The date string\<close>

fun le9 :: "jsval \<Rightarrow> bool" where
  "le9 (Num n) = (n \<le> 9)"
| "le9 v = False"

text \<open>
  \<^verbatim>\<open>${parseInt(x) <= 9 ? "0" + parseInt(x) : parseInt(x)}\<close>; a comparison with
  \<open>NaN\<close> is false.
\<close>

definition pad2 :: "jsval \<Rightarrow> string" where
  "pad2 x = (if le9 (parseInt x) then ''0'' @ toStr (parseInt x) else toStr (parseInt x))"

text \<open>The template \<^verbatim>\<open>${year}${...month...}${...day...}\<close> that three operations embed.\<close>

definition dates :: "jsval \<Rightarrow> jsval \<Rightarrow> jsval \<Rightarrow> string" where
  "dates year month day = toStr year @ pad2 month @ pad2 day"

section \<open>The NHL service\<close>

definition nhl_summary_url :: string where
  "nhl_summary_url = ''http://site.api.espn.com/apis/site/v2/sports/hockey/nhl/summary''"

definition nhl_getPlayByPlay_request :: "jsval \<Rightarrow> get_request" where
  "nhl_getPlayByPlay_request gid = \<lparr>url = nhl_summary_url, params = [(''event'', gid)]\<rparr>"

definition nhl_getPlayByPlay_fields :: "jsval \<Rightarrow> (string \<times> (error + jsval)) list" where
  "nhl_getPlayByPlay_fields res =
     [(''teams'', getPath res [Field ''data'', Field ''header'', Field ''competitions'', Index 0,
                               Field ''competitors'']),
      (''id'', mapR parseInt (getPath res [Field ''data'', Field ''header'', Field ''id''])),
      (''plays'', getPath res [Field ''data'', Field ''plays'']),
      (''onIce'', getPath res [Field ''data'', Field ''onIce'']),
      (''competitions'', getPath res [Field ''data'', Field ''header'', Field ''competitions'']),
      (''season'', getPath res [Field ''data'', Field ''header'', Field ''season'']),
      (''boxScore'', getPath res [Field ''data'', Field ''boxscore'']),
      (''seasonSeries'', getPath res [Field ''data'', Field ''seasonseries'']),
      (''standings'', getPath res [Field ''data'', Field ''standings''])]"

definition nhl_getPlayByPlay_result :: "jsval \<Rightarrow> error + jsval" where
  "nhl_getPlayByPlay_result res = objLit (nhl_getPlayByPlay_fields res)"

definition nhl_getPlayByPlay :: "env \<Rightarrow> jsval \<Rightarrow> error + jsval" where
  "nhl_getPlayByPlay e gid =
     bindR (axios_get e (nhl_getPlayByPlay_request gid)) nhl_getPlayByPlay_result"

definition nhl_getBoxScore_request :: "jsval \<Rightarrow> get_request" where
  "nhl_getBoxScore_request gid = \<lparr>url = nhl_summary_url, params = [(''event'', gid)]\<rparr>"

text \<open>
  \<^verbatim>\<open>const game = res.data.boxscore; game.id = parseInt(res.data.header.id); return game;\<close>
  The right-hand side is evaluated before the assignment is tried.
\<close>

definition nhl_getBoxScore_result :: "jsval \<Rightarrow> error + jsval" where
  "nhl_getBoxScore_result res =
     bindR (getPath res [Field ''data'', Field ''boxscore'']) (\<lambda>game.
     bindR (mapR parseInt (getPath res [Field ''data'', Field ''header'', Field ''id''])) (\<lambda>i.
       setProp True game ''id'' i))"

definition nhl_getBoxScore :: "env \<Rightarrow> jsval \<Rightarrow> error + jsval" where
  "nhl_getBoxScore e gid =
     bindR (axios_get e (nhl_getBoxScore_request gid)) nhl_getBoxScore_result"

definition nhl_getSummary_request :: "jsval \<Rightarrow> get_request" where
  "nhl_getSummary_request gid = \<lparr>url = nhl_summary_url, params = [(''event'', gid)]\<rparr>"

definition nhl_getSummary_fields :: "jsval \<Rightarrow> (string \<times> (error + jsval)) list" where
  "nhl_getSummary_fields res =
     [(''boxScore'', getPath res [Field ''data'', Field ''boxscore'']),
      (''gameInfo'', getPath res [Field ''data'', Field ''gameInfo'']),
      (''header'', getPath res [Field ''data'', Field ''header'']),
      (''teams'', getPath res [Field ''data'', Field ''header'', Field ''competitions'', Index 0,
                               Field ''competitors'']),
      (''id'', mapR parseInt (getPath res [Field ''data'', Field ''header'', Field ''id''])),
      (''plays'', getPath res [Field ''data'', Field ''plays'']),
      (''onIce'', getPath res [Field ''data'', Field ''onIce'']),
      (''leaders'', getPath res [Field ''data'', Field ''leaders'']),
      (''competitions'', getPath res [Field ''data'', Field ''header'', Field ''competitions'']),
      (''season'', getPath res [Field ''data'', Field ''header'', Field ''season'']),
      (''seasonSeries'', getPath res [Field ''data'', Field ''seasonseries'']),
      (''standings'', getPath res [Field ''data'', Field ''standings''])]"

definition nhl_getSummary_result :: "jsval \<Rightarrow> error + jsval" where
  "nhl_getSummary_result res = objLit (nhl_getSummary_fields res)"

definition nhl_getSummary :: "env \<Rightarrow> jsval \<Rightarrow> error + jsval" where
  "nhl_getSummary e gid =
     bindR (axios_get e (nhl_getSummary_request gid)) nhl_getSummary_result"

definition nhl_getPicks_request :: "jsval \<Rightarrow> get_request" where
  "nhl_getPicks_request gid = \<lparr>url = nhl_summary_url, params = [(''event'', gid)]\<rparr>"

definition nhl_getPicks_fields :: "jsval \<Rightarrow> (string \<times> (error + jsval)) list" where
  "nhl_getPicks_fields res =
     [(''id'', mapR parseInt (getPath res [Field ''data'', Field ''header'', Field ''id''])),
      (''gameInfo'', getPath res [Field ''data'', Field ''gameInfo'']),
      (''leaders'', getPath res [Field ''data'', Field ''leaders'']),
      (''header'', getPath res [Field ''data'', Field ''header'']),
      (''teams'', getPath res [Field ''data'', Field ''header'', Field ''competitions'', Index 0,
                               Field ''competitors'']),
      (''competitions'', getPath res [Field ''data'', Field ''header'', Field ''competitions'']),
      (''pickcenter'', getPath res [Field ''data'', Field ''winprobability'']),
      (''againstTheSpread'', getPath res [Field ''data'', Field ''againstTheSpread'']),
      (''odds'', getPath res [Field ''data'', Field ''odds'']),
      (''seasonSeries'', getPath res [Field ''data'', Field ''seasonseries'']),
      (''season'', getPath res [Field ''data'', Field ''header'', Field ''season'']),
      (''standings'', getPath res [Field ''data'', Field ''standings''])]"

definition nhl_getPicks_result :: "jsval \<Rightarrow> error + jsval" where
  "nhl_getPicks_result res = objLit (nhl_getPicks_fields res)"

definition nhl_getPicks :: "env \<Rightarrow> jsval \<Rightarrow> error + jsval" where
  "nhl_getPicks e gid = bindR (axios_get e (nhl_getPicks_request gid)) nhl_getPicks_result"

text \<open>
  \<^verbatim>\<open>getSchedule({ year = null, month = null, day = null })\<close>: the date goes into the URL.
\<close>

definition nhl_getSchedule_request :: "jsval \<Rightarrow> error + get_request" where
  "nhl_getSchedule_request arg =
     bindR (destructure arg ''year'' Null) (\<lambda>year.
     bindR (destructure arg ''month'' Null) (\<lambda>month.
     bindR (destructure arg ''day'' Null) (\<lambda>day.
       Inr \<lparr>url = ''http://cdn.espn.com/core/nhl/schedule?dates='' @ dates year month day,
            params = [(''xhr'', Num 1), (''render'', Bool False), (''device'', Str ''desktop''),
                      (''userab'', Num 18)]\<rparr>)))"

definition nhl_getSchedule :: "env \<Rightarrow> jsval \<Rightarrow> error + jsval" where
  "nhl_getSchedule e arg =
     bindR (nhl_getSchedule_request arg) (\<lambda>req.
     bindR (axios_get e req) (\<lambda>res.
       getPath res [Field ''data'', Field ''content'', Field ''schedule'']))"

text \<open>
  \<^verbatim>\<open>getScoreboard({ year, month, day, limit = 300 })\<close>: \<^verbatim>\<open>params.dates\<close> is set only
  when year, month and day are all truthy.
\<close>

definition nhl_getScoreboard_request :: "jsval \<Rightarrow> error + get_request" where
  "nhl_getScoreboard_request arg =
     bindR (getProp arg ''year'') (\<lambda>year.
     bindR (getProp arg ''month'') (\<lambda>month.
     bindR (getProp arg ''day'') (\<lambda>day.
     bindR (destructure arg ''limit'' (Num 300)) (\<lambda>limit.
       Inr \<lparr>url = ''http://site.api.espn.com/apis/site/v2/sports/hockey/nhl/scoreboard'',
            params = [(''limit'', limit)] @
              (if truthy year \<and> truthy month \<and> truthy day
               then [(''dates'', Str (dates year month day))] else [])\<rparr>))))"

definition nhl_getScoreboard :: "env \<Rightarrow> jsval \<Rightarrow> error + jsval" where
  "nhl_getScoreboard e arg =
     bindR (nhl_getScoreboard_request arg) (\<lambda>req.
     bindR (axios_get e req) (\<lambda>res. getPath res [Field ''data'']))"

text \<open>\<^verbatim>\<open>group === 'league' ? 1 : group === 'conference' ? 2 : 3\<close>\<close>

definition groupId :: "jsval \<Rightarrow> int" where
  "groupId grp = (if grp = Str ''league'' then 1 else if grp = Str ''conference'' then 2 else 3)"

definition nhl_getStandings_request :: "env \<Rightarrow> jsval \<Rightarrow> error + get_request" where
  "nhl_getStandings_request e arg =
     bindR (destructure arg ''year'' (Num (currentYear e))) (\<lambda>year.
     bindR (destructure arg ''group'' (Str ''league'')) (\<lambda>grp.
       Inr \<lparr>url = ''https://site.web.api.espn.com/apis/v2/sports/hockey/nhl/standings'',
            params = [(''region'', Str ''us''), (''lang'', Str ''en''),
                      (''contentorigin'', Str ''espn''), (''type'', Num 1),
                      (''level'', Num (groupId grp)),
                      (''sort'', Str ''playoffseed:asc,points:desc,gamesplayed:asc,rotwins:desc''),
                      (''season'', year)]\<rparr>))"

definition nhl_getStandings :: "env \<Rightarrow> jsval \<Rightarrow> error + jsval" where
  "nhl_getStandings e arg =
     bindR (nhl_getStandings_request e arg) (\<lambda>req.
     bindR (axios_get e req) (\<lambda>res. getPath res [Field ''data'']))"

section \<open>The NBA service\<close>

definition nba_getPlayByPlay_request :: "jsval \<Rightarrow> get_request" where
  "nba_getPlayByPlay_request gid =
     \<lparr>url = ''http://cdn.espn.com/core/nba/playbyplay'',
      params = [(''gameId'', gid), (''xhr'', Num 1), (''render'', Str ''false''),
                (''userab'', Num 18)]\<rparr>"

definition nba_getPlayByPlay_fields :: "jsval \<Rightarrow> (string \<times> (error + jsval)) list" where
  "nba_getPlayByPlay_fields res =
     [(''teams'', getPath res [Field ''data'', Field ''gamepackageJSON'', Field ''header'',
                               Field ''competitions'', Index 0, Field ''competitors'']),
      (''id'', getPath res [Field ''data'', Field ''gamepackageJSON'', Field ''header'',
                            Field ''id'']),
      (''plays'', getPath res [Field ''data'', Field ''gamepackageJSON'', Field ''plays'']),
      (''competitions'', getPath res [Field ''data'', Field ''gamepackageJSON'', Field ''header'',
                                      Field ''competitions'']),
      (''season'', getPath res [Field ''data'', Field ''gamepackageJSON'', Field ''header'',
                                Field ''season'']),
      (''boxScore'', getPath res [Field ''data'', Field ''gamepackageJSON'', Field ''boxscore'']),
      (''seasonSeries'', getPath res [Field ''data'', Field ''gamepackageJSON'',
                                      Field ''seasonseries'']),
      (''standings'', getPath res [Field ''data'', Field ''gamepackageJSON'', Field ''standings''])]"

definition nba_getPlayByPlay_result :: "jsval \<Rightarrow> error + jsval" where
  "nba_getPlayByPlay_result res = objLit (nba_getPlayByPlay_fields res)"

definition nba_getPlayByPlay :: "env \<Rightarrow> jsval \<Rightarrow> error + jsval" where
  "nba_getPlayByPlay e gid =
     bindR (axios_get e (nba_getPlayByPlay_request gid)) nba_getPlayByPlay_result"

definition nba_getBoxScore_request :: "jsval \<Rightarrow> get_request" where
  "nba_getBoxScore_request gid =
     \<lparr>url = ''http://cdn.espn.com/core/nba/boxscore'',
      params = [(''gameId'', gid), (''xhr'', Num 1), (''render'', Bool False),
                (''device'', Str ''desktop''), (''userab'', Num 18)]\<rparr>"

text \<open>
  \<^verbatim>\<open>const game = res.data.gamepackageJSON.boxscore; game.id = res.data.gameId; return game;\<close>
\<close>

definition nba_getBoxScore_result :: "jsval \<Rightarrow> error + jsval" where
  "nba_getBoxScore_result res =
     bindR (getPath res [Field ''data'', Field ''gamepackageJSON'', Field ''boxscore'']) (\<lambda>game.
     bindR (getPath res [Field ''data'', Field ''gameId'']) (\<lambda>i.
       setProp False game ''id'' i))"

definition nba_getBoxScore :: "env \<Rightarrow> jsval \<Rightarrow> error + jsval" where
  "nba_getBoxScore e gid =
     bindR (axios_get e (nba_getBoxScore_request gid)) nba_getBoxScore_result"

definition nba_summary_url :: string where
  "nba_summary_url = ''http://site.api.espn.com/apis/site/v2/sports/basketball/nba/summary''"

definition nba_getSummary_request :: "jsval \<Rightarrow> get_request" where
  "nba_getSummary_request gid = \<lparr>url = nba_summary_url, params = [(''event'', gid)]\<rparr>"

definition nba_getSummary_fields :: "jsval \<Rightarrow> (string \<times> (error + jsval)) list" where
  "nba_getSummary_fields res =
     [(''boxScore'', getPath res [Field ''data'', Field ''boxscore'']),
      (''gameInfo'', getPath res [Field ''data'', Field ''gameInfo'']),
      (''header'', getPath res [Field ''data'', Field ''header'']),
      (''teams'', getPath res [Field ''data'', Field ''gamepackageJSON'', Field ''header'',
                               Field ''competitions'', Index 0, Field ''competitors'']),
      (''id'', getPath res [Field ''data'', Field ''gamepackageJSON'', Field ''header'',
                            Field ''id'']),
      (''plays'', getPath res [Field ''data'', Field ''gamepackageJSON'', Field ''plays'']),
      (''winProbability'', getPath res [Field ''data'', Field ''winprobability'']),
      (''leaders'', getPath res [Field ''data'', Field ''leaders'']),
      (''competitions'', getPath res [Field ''data'', Field ''gamepackageJSON'', Field ''header'',
                                      Field ''competitions'']),
      (''season'', getPath res [Field ''data'', Field ''gamepackageJSON'', Field ''header'',
                                Field ''season'']),
      (''seasonSeries'', getPath res [Field ''data'', Field ''gamepackageJSON'',
                                      Field ''seasonseries'']),
      (''standings'', getPath res [Field ''data'', Field ''gamepackageJSON'', Field ''standings''])]"

definition nba_getSummary_result :: "jsval \<Rightarrow> error + jsval" where
  "nba_getSummary_result res = objLit (nba_getSummary_fields res)"

definition nba_getSummary :: "env \<Rightarrow> jsval \<Rightarrow> error + jsval" where
  "nba_getSummary e gid =
     bindR (axios_get e (nba_getSummary_request gid)) nba_getSummary_result"

definition nba_getPicks_request :: "jsval \<Rightarrow> get_request" where
  "nba_getPicks_request gid = \<lparr>url = nba_summary_url, params = [(''event'', gid)]\<rparr>"

definition nba_getPicks_fields :: "jsval \<Rightarrow> (string \<times> (error + jsval)) list" where
  "nba_getPicks_fields res =
     [(''id'', mapR parseInt (getPath res [Field ''data'', Field ''header'', Field ''id''])),
      (''gameInfo'', getPath res [Field ''data'', Field ''gameInfo'']),
      (''leaders'', getPath res [Field ''data'', Field ''leaders'']),
      (''header'', getPath res [Field ''data'', Field ''header'']),
      (''teams'', getPath res [Field ''data'', Field ''header'', Field ''competitions'', Index 0,
                               Field ''competitors'']),
      (''competitions'', getPath res [Field ''data'', Field ''header'', Field ''competitions'']),
      (''winProbability'', getPath res [Field ''data'', Field ''winprobability'']),
      (''pickcenter'', getPath res [Field ''data'', Field ''winprobability'']),
      (''againstTheSpread'', getPath res [Field ''data'', Field ''againstTheSpread'']),
      (''odds'', getPath res [Field ''data'', Field ''odds'']),
      (''seasonSeries'', getPath res [Field ''data'', Field ''seasonseries'']),
      (''season'', getPath res [Field ''data'', Field ''header'', Field ''season'']),
      (''standings'', getPath res [Field ''data'', Field ''standings''])]"

definition nba_getPicks_result :: "jsval \<Rightarrow> error + jsval" where
  "nba_getPicks_result res = objLit (nba_getPicks_fields res)"

definition nba_getPicks :: "env \<Rightarrow> jsval \<Rightarrow> error + jsval" where
  "nba_getPicks e gid = bindR (axios_get e (nba_getPicks_request gid)) nba_getPicks_result"

definition nba_getSchedule_request :: "jsval \<Rightarrow> error + get_request" where
  "nba_getSchedule_request arg =
     bindR (destructure arg ''year'' Null) (\<lambda>year.
     bindR (destructure arg ''month'' Null) (\<lambda>month.
     bindR (destructure arg ''day'' Null) (\<lambda>day.
       Inr \<lparr>url = ''http://cdn.espn.com/core/nba/schedule?dates='' @ dates year month day,
            params = [(''xhr'', Num 1), (''render'', Bool False), (''device'', Str ''desktop''),
                      (''userab'', Num 18)]\<rparr>)))"

definition nba_getSchedule :: "env \<Rightarrow> jsval \<Rightarrow> error + jsval" where
  "nba_getSchedule e arg =
     bindR (nba_getSchedule_request arg) (\<lambda>req.
     bindR (axios_get e req) (\<lambda>res.
       getPath res [Field ''data'', Field ''content'', Field ''schedule'']))"

text \<open>
  \<^verbatim>\<open>getScoreboard({year = null, month = null, day = null, limit = 300})\<close>: here the date
  is part of the URL, whatever the arguments; \<^verbatim>\<open>params\<close> holds the limit.
\<close>

definition nba_getScoreboard_request :: "jsval \<Rightarrow> error + get_request" where
  "nba_getScoreboard_request arg =
     bindR (destructure arg ''year'' Null) (\<lambda>year.
     bindR (destructure arg ''month'' Null) (\<lambda>month.
     bindR (destructure arg ''day'' Null) (\<lambda>day.
     bindR (destructure arg ''limit'' (Num 300)) (\<lambda>limit.
       Inr \<lparr>url = ''http://site.api.espn.com/apis/site/v2/sports/basketball/nba/scoreboard?dates=''
                  @ dates year month day,
            params = [(''limit'', limit)]\<rparr>))))"

definition nba_getScoreboard :: "env \<Rightarrow> jsval \<Rightarrow> error + jsval" where
  "nba_getScoreboard e arg =
     bindR (nba_getScoreboard_request arg) (\<lambda>req.
     bindR (axios_get e req) (\<lambda>res. getPath res [Field ''data'']))"

definition nba_getStandings_request :: "env \<Rightarrow> jsval \<Rightarrow> error + get_request" where
  "nba_getStandings_request e arg =
     bindR (destructure arg ''year'' (Num (currentYear e))) (\<lambda>year.
     bindR (destructure arg ''group'' (Str ''league'')) (\<lambda>grp.
       Inr \<lparr>url = ''http://cdn.espn.com/core/nba/standings/_/season/'' @ toStr year
                  @ ''/group/'' @ toStr grp,
            params = [(''xhr'', Num 1), (''render'', Bool False), (''device'', Str ''desktop''),
                      (''userab'', Num 18)]\<rparr>))"

text \<open>\<^verbatim>\<open>return res.content.standings.groups;\<close> reads the response object, not its body.\<close>

definition nba_getStandings :: "env \<Rightarrow> jsval \<Rightarrow> error + jsval" where
  "nba_getStandings e arg =
     bindR (nba_getStandings_request e arg) (\<lambda>req.
     bindR (axios_get e req) (\<lambda>res.
       getPath res [Field ''content'', Field ''standings'', Field ''groups'']))"

section \<open>Notions used by the properties\<close>

text \<open>The value a property read yields when it does not throw.\<close>

fun propOf :: "jsval \<Rightarrow> string \<Rightarrow> jsval" where
  "propOf (Obj kvs) k = (case map_of kvs k of None \<Rightarrow> Undefined | Some v \<Rightarrow> v)"
| "propOf (Arr xs ps) k = (case map_of ps k of None \<Rightarrow> Undefined | Some v \<Rightarrow> v)"
| "propOf v k = Undefined"

text \<open>
  The longest member chain of the projections that read the header at the top of the
  body, and of those that read it under \<^verbatim>\<open>gamepackageJSON\<close>.
\<close>

definition header_teams_path :: "accessor list" where
  "header_teams_path =
     [Field ''data'', Field ''header'', Field ''competitions'', Index 0, Field ''competitors'']"

definition package_teams_path :: "accessor list" where
  "package_teams_path =
     [Field ''data'', Field ''gamepackageJSON'', Field ''header'', Field ''competitions'', Index 0,
      Field ''competitors'']"

text \<open>
  An outcome projects a field table when it is a result object that has the table's
  keys, in order, and under each key the value the table's entry reads.
\<close>

definition projects :: "(string \<times> (error + jsval)) list \<Rightarrow> error + jsval \<Rightarrow> bool" where
  "projects fs out =
     (\<exists>r. out = Inr r \<and> keysOf r = map fst fs \<and> (\<forall>(k, v) \<in> set fs. getProp r k = v))"

text \<open>
  The output field lists of the external-interface table of the specification, for the
  three operations that have one. The table gives \<^verbatim>\<open>onIce\<close> as a hockey extra of
  play-by-play, and \<^verbatim>\<open>winProbability/pickcenter\<close> for picks.
\<close>

definition documented_playByPlay_fields :: "string list" where
  "documented_playByPlay_fields =
     [''teams'', ''id'', ''plays'', ''competitions'', ''season'', ''boxScore'', ''seasonSeries'',
      ''standings'']"

definition documented_summary_fields :: "string list" where
  "documented_summary_fields =
     [''boxScore'', ''gameInfo'', ''header'', ''teams'', ''id'', ''plays'', ''winProbability'',
      ''leaders'', ''competitions'', ''season'', ''seasonSeries'', ''standings'']"

definition documented_picks_fields :: "string list" where
  "documented_picks_fields =
     [''id'', ''gameInfo'', ''leaders'', ''header'', ''teams'', ''competitions'',
      ''winProbability'', ''pickcenter'', ''againstTheSpread'', ''odds'', ''seasonSeries'',
      ''season'', ''standings'']"

text \<open>
  The surroundings in which every GET succeeds with status 200 and the given body.
\<close>

definition replying :: "jsval \<Rightarrow> env" where
  "replying body =
     \<lparr>transport = (\<lambda>req. Inr \<lparr>data = body, status = 200, statusText = ''OK'', headers = Obj [],
                               config = Obj [], request = Obj []\<rparr>),
      currentYear = 2026\<rparr>"

text \<open>
  A response whose body has the header both at the top and under \<^verbatim>\<open>gamepackageJSON\<close>,
  and none of \<^verbatim>\<open>plays\<close>, \<^verbatim>\<open>leaders\<close>, \<^verbatim>\<open>boxscore\<close>, \<^verbatim>\<open>standings\<close>.
\<close>

definition sample_header :: jsval where
  "sample_header =
     Obj [(''id'', Str ''401272446''),
          (''competitions'', Arr [Obj [(''competitors'', Arr [] [])]] [])]"

definition sample_response :: jsval where
  "sample_response =
     Obj [(''data'', Obj [(''header'', sample_header),
                          (''gamepackageJSON'', Obj [(''header'', sample_header)])]),
          (''status'', Num 200), (''statusText'', Str ''OK''), (''headers'', Obj []),
          (''config'', Obj []), (''request'', Obj [])]"

section \<open>Properties\<close>

subsection \<open>Helper facts\<close>

lemma getProp_defined: "getProp arg k = Inr v \<Longrightarrow> \<exists>w. getProp arg k' = Inr w"
  by (cases arg) auto

lemma digit_lt10: "d < 10 \<Longrightarrow> d \<in> {0, 1, 2, 3, 4, 5, 6, 7, 8, 9::nat}"
  by auto

lemma digit_of_digit_char: "d < 10 \<Longrightarrow> digit_of 10 (digit_char d) = Some d"
  by (drule digit_lt10) (auto simp: digit_char_def digit_of_def)

lemma digit_char_in: "d < 10 \<Longrightarrow> digit_char d \<in> set ''0123456789''"
  by (drule digit_lt10) (auto simp: digit_char_def)

lemma show_nat_chars: "set (show_nat n) \<subseteq> set ''0123456789''"
proof (induction n rule: show_nat.induct)
  case (1 n)
  show ?case
  proof (cases "n < 10")
    case True
    then show ?thesis using digit_char_in [of n] by (subst show_nat.simps) simp
  next
    case False
    then show ?thesis using 1 digit_char_in [of "n mod 10"]
      by (subst show_nat.simps) simp
  qed
qed

lemma show_nat_nonempty: "show_nat n \<noteq> []"
  by (subst show_nat.simps) simp

lemma parseDigits_digit:
  "d < 10 \<Longrightarrow> parseDigits 10 (digit_char d # rest) acc =
     parseDigits 10 rest (Some ((case acc of None \<Rightarrow> 0 | Some a \<Rightarrow> a) * 10 + d))"
  by (simp add: digit_of_digit_char)

lemma length_show_nat_step: "\<not> n < 10 \<Longrightarrow> length (show_nat n) = Suc (length (show_nat (n div 10)))"
  by (subst show_nat.simps) simp

lemma show_nat_step: "\<not> n < 10 \<Longrightarrow> show_nat n @ rest = show_nat (n div 10) @ (digit_char (n mod 10) # rest)"
  by (subst show_nat.simps) simp

lemma parseDigits_show_nat:
  "parseDigits 10 (show_nat n @ rest) acc =
     parseDigits 10 rest
       (Some ((case acc of None \<Rightarrow> 0 | Some a \<Rightarrow> a) * 10 ^ length (show_nat n) + n))"
proof (induction n arbitrary: rest acc rule: show_nat.induct)
  case (1 n)
  show ?case
  proof (cases "n < 10")
    case True
    have "show_nat n = [digit_char n]" using True by (subst show_nat.simps) simp
    then show ?thesis using True by (simp add: digit_of_digit_char)
  next
    case False
    define a where "a = (case acc of None \<Rightarrow> 0 | Some a \<Rightarrow> a)"
    define k where "k = length (show_nat (n div 10))"
    have "parseDigits 10 (show_nat n @ rest) acc
        = parseDigits 10 (show_nat (n div 10) @ (digit_char (n mod 10) # rest)) acc"
      by (simp only: show_nat_step [OF False])
    also have "\<dots> = parseDigits 10 (digit_char (n mod 10) # rest) (Some (a * 10 ^ k + n div 10))"
      unfolding a_def k_def by (rule 1 [OF False])
    also have "\<dots> = parseDigits 10 rest (Some ((a * 10 ^ k + n div 10) * 10 + n mod 10))"
      by (subst parseDigits_digit) simp_all
    also have "(a * 10 ^ k + n div 10) * 10 + n mod 10 = a * 10 ^ length (show_nat n) + n"
      using False by (simp add: length_show_nat_step k_def algebra_simps)
    finally show ?thesis unfolding a_def .
  qed
qed

lemma show_nat_head: "\<exists>c cs. show_nat n = c # cs \<and> c \<in> set ''0123456789''"
  using show_nat_nonempty [of n] show_nat_chars [of n] by (cases "show_nat n") auto

lemma show_nat_not_hex: "take 2 (show_nat n) \<noteq> ''0x'' \<and> take 2 (show_nat n) \<noteq> ''0X''"
proof -
  have "set (take 2 (show_nat n)) \<subseteq> set ''0123456789''"
    using show_nat_chars [of n] set_take_subset [of 2 "show_nat n"] by blast
  then show ?thesis by auto
qed

lemma parseIntStr_show_nat: "parseIntStr (show_nat n) = Num (int n)"
proof -
  obtain c cs where s: "show_nat n = c # cs" and c: "c \<in> set ''0123456789''"
    using show_nat_head by blast
  have w: "dropWhile isWhite (show_nat n) = show_nat n"
    using s c by (auto simp: isWhite_def)
  have sg: "take 1 (show_nat n) \<noteq> ''-'' \<and> take 1 (show_nat n) \<noteq> ''+''"
    using s c by auto
  have d: "parseDigits 10 (show_nat n) None = Some n"
    using parseDigits_show_nat [of n "[]" None] by simp
  show ?thesis
    using sg show_nat_not_hex [of n] d by (simp add: parseIntStr_def w)
qed

lemma parseIntStr_minus: "parseIntStr (CHR ''-'' # show_nat n) = Num (- int n)"
proof -
  have d: "parseDigits 10 (show_nat n) None = Some n"
    using parseDigits_show_nat [of n "[]" None] by simp
  show ?thesis
    using show_nat_not_hex [of n] d by (simp add: parseIntStr_def isWhite_def)
qed

lemma parseInt_Num: "parseInt (Num i) = Num i"
  by (simp add: parseInt_def show_int_def parseIntStr_show_nat parseIntStr_minus)

lemma show_nat_digit: "n < 10 \<Longrightarrow> show_nat n = [digit_char n]"
  by (subst show_nat.simps) simp

lemma pad2_Num: "pad2 (Num i) = (if i \<le> 9 then CHR ''0'' # show_int i else show_int i)"
  by (simp add: pad2_def parseInt_Num)

lemma length_show_nat_4: "1000 \<le> n \<Longrightarrow> n \<le> 9999 \<Longrightarrow> length (show_nat n) = 4"
proof -
  assume a: "1000 \<le> n" "n \<le> 9999"
  then have "\<not> n < 10" "\<not> n div 10 < 10" "\<not> n div 10 div 10 < 10" "n div 10 div 10 div 10 < 10"
    by auto
  then show ?thesis
    by (simp add: length_show_nat_step show_nat_digit)
qed

lemma getProp_propOf: "v \<noteq> Undefined \<Longrightarrow> v \<noteq> Null \<Longrightarrow> getProp v k = Inr (propOf v k)"
  by (cases v) auto

lemma getProp_InrD: "getProp v k = Inr w \<Longrightarrow> v \<noteq> Undefined \<and> v \<noteq> Null"
  by (cases v) auto

lemma getIndex_InrD: "getIndex v i = Inr w \<Longrightarrow> v \<noteq> Undefined \<and> v \<noteq> Null"
  by (cases v) auto

lemma getProp_error: "getProp v k = Inl e \<Longrightarrow> e = TypeError"
  by (cases v) auto

lemma getIndex_error: "getIndex v i = Inl e \<Longrightarrow> e = TypeError"
  by (cases v) auto

lemma getPath_error: "getPath v p = Inl e \<Longrightarrow> e = TypeError"
proof (induction p arbitrary: v)
  case Nil
  then show ?case by simp
next
  case (Cons a p)
  then show ?case
    by (cases a) (auto split: sum.splits dest: getProp_error getIndex_error)
qed

lemma evalFields_keys: "evalFields fs = Inr kvs \<Longrightarrow> map fst kvs = map fst fs"
  by (induction fs arbitrary: kvs rule: evalFields.induct) (auto split: sum.splits)

lemma evalFields_value:
  "evalFields fs = Inr kvs \<Longrightarrow> distinct (map fst fs) \<Longrightarrow> (k, v) \<in> set fs
   \<Longrightarrow> \<exists>x. v = Inr x \<and> map_of kvs k = Some x"
proof (induction fs arbitrary: kvs rule: evalFields.induct)
  case 1
  then show ?case by simp
next
  case (2 k' r fs)
  from "2.prems"(1) obtain x kvs' where r: "r = Inr x" and t: "evalFields fs = Inr kvs'"
    and kvs: "kvs = (k', x) # kvs'"
    by (auto split: sum.splits)
  show ?case
  proof (cases "(k, v) = (k', r)")
    case True
    then show ?thesis using r kvs by simp
  next
    case False
    with "2.prems" have m: "(k, v) \<in> set fs" and d: "distinct (map fst fs)" and n: "k \<noteq> k'"
      by (auto simp: rev_image_eqI)
    from "2.IH" [OF r t d m] n kvs show ?thesis by simp
  qed
qed

lemma evalFields_fail: "evalFields fs = Inl e \<Longrightarrow> \<exists>k. (k, Inl e) \<in> set fs"
  by (induction fs rule: evalFields.induct) (auto split: sum.splits)

lemma evalFields_ok: "\<forall>(k, v) \<in> set fs. \<exists>x. v = Inr x \<Longrightarrow> \<exists>kvs. evalFields fs = Inr kvs"
  by (induction fs rule: evalFields.induct) (auto split: sum.splits)

lemma objLit_keys: "objLit fs = Inr r \<Longrightarrow> keysOf r = map fst fs"
  by (auto simp: objLit_def mapR_def split: sum.splits dest: evalFields_keys)

lemma objLit_field:
  "objLit fs = Inr r \<Longrightarrow> distinct (map fst fs) \<Longrightarrow> (k, v) \<in> set fs \<Longrightarrow> getProp r k = v"
  by (auto simp: objLit_def mapR_def split: sum.splits dest: evalFields_value)

lemma objLit_projects:
  assumes "\<forall>(k, v) \<in> set fs. \<exists>x. v = Inr x" and "distinct (map fst fs)"
  shows "projects fs (objLit fs)"
proof -
  from evalFields_ok [OF assms(1)] obtain kvs where "evalFields fs = Inr kvs" by blast
  then have r: "objLit fs = Inr (Obj kvs)" by (simp add: objLit_def mapR_def)
  show ?thesis
    unfolding projects_def
    using r objLit_keys [OF r] objLit_field [OF r assms(2)] by auto
qed

lemma objLit_fail: "objLit fs = Inl e \<Longrightarrow> \<exists>k. (k, Inl e) \<in> set fs"
  by (auto simp: objLit_def mapR_def split: sum.splits dest: evalFields_fail)

subsection \<open>Standings\<close>

text \<open>
  C5. Calling \<open>getStandings\<close> with no arguments is claimed to build a request for the
  current calendar year and the league group. The parameter of both functions is a
  destructuring pattern with no default of its own, so with no argument the pattern is
  matched against \<^verbatim>\<open>undefined\<close> and a TypeError is thrown before any request is
  built, in both services.
\<close>

theorem standings_no_argument:
  "nhl_getStandings_request e Undefined = Inl TypeError
   \<and> nba_getStandings_request e Undefined = Inl TypeError
   \<and> nhl_getStandings e Undefined = Inl TypeError
   \<and> nba_getStandings e Undefined = Inl TypeError"
  by (simp add: nhl_getStandings_request_def nba_getStandings_request_def destructure_def
        bindR_def nhl_getStandings_def nba_getStandings_def)

text \<open>
  The defaults do apply to an empty options object: the season is the current year, and
  the group is the league one (level 1 for hockey, the path segment \<^verbatim>\<open>league\<close> for
  basketball).
\<close>

lemma standings_empty_options:
  "nhl_getStandings_request e (Obj []) =
     Inr \<lparr>url = ''https://site.web.api.espn.com/apis/v2/sports/hockey/nhl/standings'',
          params = [(''region'', Str ''us''), (''lang'', Str ''en''),
                    (''contentorigin'', Str ''espn''), (''type'', Num 1), (''level'', Num 1),
                    (''sort'', Str ''playoffseed:asc,points:desc,gamesplayed:asc,rotwins:desc''),
                    (''season'', Num (currentYear e))]\<rparr>"
  "nba_getStandings_request e (Obj []) =
     Inr \<lparr>url = ''http://cdn.espn.com/core/nba/standings/_/season/'' @ show_int (currentYear e)
                @ ''/group/league'',
          params = [(''xhr'', Num 1), (''render'', Bool False), (''device'', Str ''desktop''),
                    (''userab'', Num 18)]\<rparr>"
  by (simp_all add: nhl_getStandings_request_def nba_getStandings_request_def destructure_def
        bindR_def groupId_def)

text \<open>
  The call of the function's own documentation, \<^verbatim>\<open>getStandings(year = yr)\<close> with
  \<^verbatim>\<open>yr = 2016\<close>, passes a number: its \<^verbatim>\<open>year\<close> property is \<^verbatim>\<open>undefined\<close>, and the season
  requested is the current year.
\<close>

lemma standings_documented_call:
  "\<exists>req. nhl_getStandings_request e (Num 2016) = Inr req
     \<and> map_of (params req) ''season'' = Some (Num (currentYear e))"
  by (simp add: nhl_getStandings_request_def destructure_def bindR_def)

text \<open>
  C7. The hockey group codes of \<^verbatim>\<open>league\<close>, \<^verbatim>\<open>conference\<close> and \<^verbatim>\<open>division\<close> are pairwise
  distinct; every other group string gets the code of \<^verbatim>\<open>division\<close>; and for every
  group string the request is built, with that code as its \<^verbatim>\<open>level\<close> parameter.
\<close>

theorem groupId_levels:
  "groupId (Str ''league'') \<noteq> groupId (Str ''conference'')
   \<and> groupId (Str ''conference'') \<noteq> groupId (Str ''division'')
   \<and> groupId (Str ''league'') \<noteq> groupId (Str ''division'')
   \<and> (\<forall>s. s \<noteq> ''league'' \<and> s \<noteq> ''conference'' \<longrightarrow> groupId (Str s) = groupId (Str ''division''))
   \<and> (\<forall>e kvs g. map_of kvs ''group'' = Some (Str g) \<longrightarrow>
         (\<exists>req. nhl_getStandings_request e (Obj kvs) = Inr req
            \<and> map_of (params req) ''level'' = Some (Num (groupId (Str g)))))"
  by (simp add: groupId_def nhl_getStandings_request_def destructure_def bindR_def)

theorem groupId_levels_witness:
  "''wildcard'' \<noteq> ''league'' \<and> ''wildcard'' \<noteq> ''conference''
   \<and> groupId (Str ''wildcard'') = groupId (Str ''division'')
   \<and> map_of [(''group'', Str ''wildcard'')] ''group'' = Some (Str ''wildcard'')
   \<and> (\<exists>req. nhl_getStandings_request \<lparr>transport = (\<lambda>r. Inl TransportError), currentYear = 2026\<rparr>
                  (Obj [(''group'', Str ''wildcard'')]) = Inr req
            \<and> map_of (params req) ''level'' = Some (Num 3))"
proof -
  have a: "''wildcard'' \<noteq> ''league'' \<and> ''wildcard'' \<noteq> ''conference''" by simp
  have b: "map_of [(''group'', Str ''wildcard'')] ''group'' = Some (Str ''wildcard'')" by simp
  have c: "groupId (Str ''wildcard'') = 3" by (simp add: groupId_def)
  from groupId_levels a b c show ?thesis by metis
qed

text \<open>
  C10. The NBA \<open>getStandings\<close> never returns a value, whatever the arguments and the
  transport: once the GET has completed it reads \<^verbatim>\<open>content\<close> from the response object,
  which has no such property, and the next member access throws a TypeError.
\<close>

theorem nba_getStandings_never_returns:
  "(\<forall>v. nba_getStandings e arg \<noteq> Inr v)
   \<and> (\<forall>req r. nba_getStandings_request e arg = Inr req \<and> transport e req = Inr r
         \<longrightarrow> nba_getStandings e arg = Inl TypeError)"
  by (auto simp: nba_getStandings_def bindR_def axios_get_def mapR_def resObj_def
           split: sum.splits)

theorem nba_getStandings_never_returns_witness:
  "nba_getStandings
     \<lparr>transport = (\<lambda>req. Inr \<lparr>data = Obj [(''content'', Obj [(''standings'',
                                         Obj [(''groups'', Arr [] [])])])],
                               status = 200, statusText = ''OK'', headers = Obj [],
                               config = Obj [], request = Obj []\<rparr>),
      currentYear = 2026\<rparr> (Obj []) = Inl TypeError"
  using nba_getStandings_never_returns
    [of "\<lparr>transport = (\<lambda>req. Inr \<lparr>data = Obj [(''content'', Obj [(''standings'',
                                         Obj [(''groups'', Arr [] [])])])],
                               status = 200, statusText = ''OK'', headers = Obj [],
                               config = Obj [], request = Obj []\<rparr>),
      currentYear = 2026\<rparr>" "Obj []"]
  by (simp add: nba_getStandings_request_def destructure_def bindR_def)

subsection \<open>Scoreboard\<close>

text \<open>
  C6. With year, month and day absent, a scoreboard request is claimed to carry no dates
  parameter, only the limit, in both services. For the empty options object the NHL
  request is that: its URL has no query and its parameters are the limit. The NBA
  function writes the date into the URL whatever the arguments, so its request carries
  \<^verbatim>\<open>dates=nullNaNNaN\<close> beside the limit. With no argument at all both functions throw
  before a request is built.
\<close>

theorem scoreboard_absent_date_requests:
  "nba_getScoreboard_request (Obj []) =
     Inr \<lparr>url = ''http://site.api.espn.com/apis/site/v2/sports/basketball/nba/scoreboard?dates=nullNaNNaN'',
          params = [(''limit'', Num 300)]\<rparr>
   \<and> nhl_getScoreboard_request (Obj []) =
     Inr \<lparr>url = ''http://site.api.espn.com/apis/site/v2/sports/hockey/nhl/scoreboard'',
          params = [(''limit'', Num 300)]\<rparr>
   \<and> nba_getScoreboard_request Undefined = Inl TypeError
   \<and> nhl_getScoreboard_request Undefined = Inl TypeError"
  by (simp add: nba_getScoreboard_request_def nhl_getScoreboard_request_def destructure_def
        bindR_def dates_def pad2_def parseInt_def parseIntStr_def isWhite_def digit_of_def)

text \<open>
  The NHL function omits the date for every argument whose year, month and day read as
  \<^verbatim>\<open>undefined\<close>: the request is the bare URL with the limit.
\<close>

lemma nhl_getScoreboard_without_date:
  assumes "getProp arg ''year'' = Inr Undefined" and "getProp arg ''month'' = Inr Undefined"
    and "getProp arg ''day'' = Inr Undefined"
  shows "\<exists>l. destructure arg ''limit'' (Num 300) = Inr l
           \<and> nhl_getScoreboard_request arg =
               Inr \<lparr>url = ''http://site.api.espn.com/apis/site/v2/sports/hockey/nhl/scoreboard'',
                    params = [(''limit'', l)]\<rparr>"
proof -
  from getProp_defined [OF assms(1)] obtain w where w: "getProp arg ''limit'' = Inr w" by blast
  show ?thesis
    using assms w by (simp add: nhl_getScoreboard_request_def destructure_def bindR_def)
qed

text \<open>
  Every request the NBA function builds has the \<^verbatim>\<open>dates\<close> query in its URL, and the limit
  as its only parameter.
\<close>

lemma nba_getScoreboard_url_always_dated:
  assumes "nba_getScoreboard_request arg = Inr req"
  shows "\<exists>d. url req =
           ''http://site.api.espn.com/apis/site/v2/sports/basketball/nba/scoreboard?dates='' @ d
         \<and> map fst (params req) = [''limit'']"
  using assms
  by (auto simp: nba_getScoreboard_request_def bindR_def split: sum.splits)

subsection \<open>Schedule\<close>

text \<open>
  C3. For every year and every month and day between 1 and 9, the date string of the
  schedule operations is the year followed by \<^verbatim>\<open>0\<close>, the month digit, \<^verbatim>\<open>0\<close> and the day
  digit: eight characters for a four-digit year. Both services put it into the URL.
\<close>

theorem schedule_date_zero_padded:
  assumes "1 \<le> m" and "m \<le> 9" and "1 \<le> d" and "d \<le> 9"
    and "map_of kvs ''year'' = Some (Num y)" and "map_of kvs ''month'' = Some (Num m)"
    and "map_of kvs ''day'' = Some (Num d)"
  shows "dates (Num y) (Num m) (Num d)
           = show_int y @ [CHR ''0'', digit_char (nat m), CHR ''0'', digit_char (nat d)]
       \<and> (1000 \<le> y \<and> y \<le> 9999 \<longrightarrow> length (dates (Num y) (Num m) (Num d)) = 8)
       \<and> mapR url (nhl_getSchedule_request (Obj kvs))
           = Inr (''http://cdn.espn.com/core/nhl/schedule?dates='' @ dates (Num y) (Num m) (Num d))
       \<and> mapR url (nba_getSchedule_request (Obj kvs))
           = Inr (''http://cdn.espn.com/core/nba/schedule?dates='' @ dates (Num y) (Num m) (Num d))"
proof -
  have pm: "pad2 (Num m) = [CHR ''0'', digit_char (nat m)]"
    using assms(1,2) by (simp add: pad2_Num show_int_def show_nat_digit)
  have pd: "pad2 (Num d) = [CHR ''0'', digit_char (nat d)]"
    using assms(3,4) by (simp add: pad2_Num show_int_def show_nat_digit)
  have e: "dates (Num y) (Num m) (Num d)
           = show_int y @ [CHR ''0'', digit_char (nat m), CHR ''0'', digit_char (nat d)]"
    by (simp add: dates_def pm pd)
  have l: "1000 \<le> y \<and> y \<le> 9999 \<longrightarrow> length (dates (Num y) (Num m) (Num d)) = 8"
  proof
    assume "1000 \<le> y \<and> y \<le> 9999"
    then have "1000 \<le> nat y" and "nat y \<le> 9999" and "\<not> y < 0" by auto
    then show "length (dates (Num y) (Num m) (Num d)) = 8"
      by (simp add: e show_int_def length_show_nat_4)
  qed
  have u1: "mapR url (nhl_getSchedule_request (Obj kvs))
           = Inr (''http://cdn.espn.com/core/nhl/schedule?dates='' @ dates (Num y) (Num m) (Num d))"
    using assms(5,6,7) by (simp add: nhl_getSchedule_request_def destructure_def bindR_def mapR_def)
  have u2: "mapR url (nba_getSchedule_request (Obj kvs))
           = Inr (''http://cdn.espn.com/core/nba/schedule?dates='' @ dates (Num y) (Num m) (Num d))"
    using assms(5,6,7) by (simp add: nba_getSchedule_request_def destructure_def bindR_def mapR_def)
  from e l u1 u2 show ?thesis by blast
qed

theorem schedule_date_zero_padded_witness:
  "dates (Num 2016) (Num 4) (Num 5) = ''20160405''
   \<and> length (dates (Num 2016) (Num 4) (Num 5)) = 8
   \<and> mapR url (nhl_getSchedule_request
        (Obj [(''year'', Num 2016), (''month'', Num 4), (''day'', Num 5)]))
       = Inr ''http://cdn.espn.com/core/nhl/schedule?dates=20160405''
   \<and> mapR url (nba_getSchedule_request
        (Obj [(''year'', Num 2016), (''month'', Num 4), (''day'', Num 5)]))
       = Inr ''http://cdn.espn.com/core/nba/schedule?dates=20160405''"
  using schedule_date_zero_padded
    [of 4 5 "[(''year'', Num 2016), (''month'', Num 4), (''day'', Num 5)]" 2016]
  by (simp add: show_int_def show_nat.simps digit_char_def)

text \<open>
  The example of the specification, year 2016, month 4, day 15, passed as the options
  object the functions destructure.
\<close>

lemma schedule_date_example: "dates (Num 2016) (Num 4) (Num 15) = ''20160415''"
  by (simp add: dates_def pad2_Num show_int_def show_nat.simps digit_char_def)

text \<open>
  Passed as three positional arguments, as the documentation of the functions writes the
  call, the first argument is a number: none of its properties is defined, and the
  defaults \<^verbatim>\<open>null\<close> are rendered.
\<close>

lemma schedule_positional_call:
  "mapR url (nhl_getSchedule_request (Num 2016))
     = Inr ''http://cdn.espn.com/core/nhl/schedule?dates=nullNaNNaN''"
  by (simp add: nhl_getSchedule_request_def destructure_def bindR_def mapR_def dates_def
        pad2_def parseInt_def parseIntStr_def isWhite_def digit_of_def)

subsection \<open>Facts about the projections\<close>

lemma objLit_cases:
  assumes d: "distinct (map fst fs)" and m: "(k0, v0) \<in> set fs"
    and e: "\<forall>(k, v) \<in> set fs. \<forall>err. v = Inl err \<longrightarrow> err = TypeError"
    and a: "\<And>t. v0 = Inr t \<Longrightarrow> \<forall>(k, v) \<in> set fs. \<exists>x. v = Inr x"
  shows "case v0 of Inl err \<Rightarrow> objLit fs = Inl TypeError | Inr t \<Rightarrow> projects fs (objLit fs)"
proof (cases v0)
  case (Inl err)
  have "objLit fs = Inl TypeError"
  proof (cases "objLit fs")
    case (Inl err')
    from objLit_fail [OF this] e have "err' = TypeError" by blast
    with Inl show ?thesis by simp
  next
    case (Inr r)
    from objLit_field [OF this d m] \<open>v0 = Inl err\<close> have "getProp r k0 = Inl err" by simp
    moreover from Inr have "\<exists>kvs. r = Obj kvs" by (auto simp: objLit_def mapR_def split: sum.splits)
    ultimately show ?thesis by auto
  qed
  with Inl show ?thesis by simp
next
  case (Inr t)
  from objLit_projects [OF a [OF Inr] d] Inr show ?thesis by simp
qed

lemma header_reads:
  assumes "getPath res header_teams_path = Inr t"
  shows "\<exists>d h. getProp res ''data'' = Inr d \<and> d \<noteq> Undefined \<and> d \<noteq> Null
           \<and> propOf d ''header'' = h \<and> h \<noteq> Undefined \<and> h \<noteq> Null"
proof -
  from assms obtain d h cs where d: "getProp res ''data'' = Inr d" and h: "getProp d ''header'' = Inr h"
    and cs: "getProp h ''competitions'' = Inr cs"
    by (auto simp: header_teams_path_def split: sum.splits)
  from getProp_InrD [OF h] have dn: "d \<noteq> Undefined \<and> d \<noteq> Null" .
  with h have "propOf d ''header'' = h" by (simp add: getProp_propOf)
  with d dn getProp_InrD [OF cs] show ?thesis by blast
qed

lemma package_reads:
  assumes "getPath res package_teams_path = Inr t"
  shows "\<exists>d g h. getProp res ''data'' = Inr d \<and> d \<noteq> Undefined \<and> d \<noteq> Null
           \<and> propOf d ''gamepackageJSON'' = g \<and> g \<noteq> Undefined \<and> g \<noteq> Null
           \<and> propOf g ''header'' = h \<and> h \<noteq> Undefined \<and> h \<noteq> Null"
proof -
  from assms obtain d g h cs where d: "getProp res ''data'' = Inr d"
    and g: "getProp d ''gamepackageJSON'' = Inr g" and h: "getProp g ''header'' = Inr h"
    and cs: "getProp h ''competitions'' = Inr cs"
    by (auto simp: package_teams_path_def split: sum.splits)
  from getProp_InrD [OF g] have dn: "d \<noteq> Undefined \<and> d \<noteq> Null" .
  from getProp_InrD [OF h] have gn: "g \<noteq> Undefined \<and> g \<noteq> Null" .
  from g dn have "propOf d ''gamepackageJSON'' = g" by (simp add: getProp_propOf)
  moreover from h gn have "propOf g ''header'' = h" by (simp add: getProp_propOf)
  ultimately show ?thesis using d dn gn getProp_InrD [OF cs] by blast
qed

lemma field_errors:
  "getPath v p = Inl err \<Longrightarrow> err = TypeError"
  "mapR f (getPath v p) = Inl err \<Longrightarrow> err = TypeError"
  by (auto simp: mapR_def split: sum.splits dest: getPath_error)

lemma nhl_getPlayByPlay_cases:
  "case getPath res header_teams_path of
     Inl err \<Rightarrow> nhl_getPlayByPlay_result res = Inl TypeError
   | Inr t \<Rightarrow> projects (nhl_getPlayByPlay_fields res) (nhl_getPlayByPlay_result res)"
  unfolding nhl_getPlayByPlay_result_def
proof (rule objLit_cases [where ?k0.0 = "''teams''"])
  show "distinct (map fst (nhl_getPlayByPlay_fields res))"
    by (simp add: nhl_getPlayByPlay_fields_def)
  show "(''teams'', getPath res header_teams_path) \<in> set (nhl_getPlayByPlay_fields res)"
    by (simp add: nhl_getPlayByPlay_fields_def header_teams_path_def)
  show "\<forall>(k, v) \<in> set (nhl_getPlayByPlay_fields res). \<forall>err. v = Inl err \<longrightarrow> err = TypeError"
    by (auto simp: nhl_getPlayByPlay_fields_def simp del: getPath.simps dest: field_errors)
next
  fix t assume p: "getPath res header_teams_path = Inr t"
  from header_reads [OF p] obtain d h where "getProp res ''data'' = Inr d" "d \<noteq> Undefined"
    "d \<noteq> Null" "propOf d ''header'' = h" "h \<noteq> Undefined" "h \<noteq> Null" by blast
  moreover note p [unfolded header_teams_path_def]
  ultimately show "\<forall>(k, v) \<in> set (nhl_getPlayByPlay_fields res). \<exists>x. v = Inr x"
    by (simp add: nhl_getPlayByPlay_fields_def getProp_propOf mapR_def)
qed

lemma nhl_getSummary_cases:
  "case getPath res header_teams_path of
     Inl err \<Rightarrow> nhl_getSummary_result res = Inl TypeError
   | Inr t \<Rightarrow> projects (nhl_getSummary_fields res) (nhl_getSummary_result res)"
  unfolding nhl_getSummary_result_def
proof (rule objLit_cases [where ?k0.0 = "''teams''"])
  show "distinct (map fst (nhl_getSummary_fields res))"
    by (simp add: nhl_getSummary_fields_def)
  show "(''teams'', getPath res header_teams_path) \<in> set (nhl_getSummary_fields res)"
    by (simp add: nhl_getSummary_fields_def header_teams_path_def)
  show "\<forall>(k, v) \<in> set (nhl_getSummary_fields res). \<forall>err. v = Inl err \<longrightarrow> err = TypeError"
    by (auto simp: nhl_getSummary_fields_def simp del: getPath.simps dest: field_errors)
next
  fix t assume p: "getPath res header_teams_path = Inr t"
  from header_reads [OF p] obtain d h where "getProp res ''data'' = Inr d" "d \<noteq> Undefined"
    "d \<noteq> Null" "propOf d ''header'' = h" "h \<noteq> Undefined" "h \<noteq> Null" by blast
  moreover note p [unfolded header_teams_path_def]
  ultimately show "\<forall>(k, v) \<in> set (nhl_getSummary_fields res). \<exists>x. v = Inr x"
    by (simp add: nhl_getSummary_fields_def getProp_propOf mapR_def)
qed

lemma nhl_getPicks_cases:
  "case getPath res header_teams_path of
     Inl err \<Rightarrow> nhl_getPicks_result res = Inl TypeError
   | Inr t \<Rightarrow> projects (nhl_getPicks_fields res) (nhl_getPicks_result res)"
  unfolding nhl_getPicks_result_def
proof (rule objLit_cases [where ?k0.0 = "''teams''"])
  show "distinct (map fst (nhl_getPicks_fields res))"
    by (simp add: nhl_getPicks_fields_def)
  show "(''teams'', getPath res header_teams_path) \<in> set (nhl_getPicks_fields res)"
    by (simp add: nhl_getPicks_fields_def header_teams_path_def)
  show "\<forall>(k, v) \<in> set (nhl_getPicks_fields res). \<forall>err. v = Inl err \<longrightarrow> err = TypeError"
    by (auto simp: nhl_getPicks_fields_def simp del: getPath.simps dest: field_errors)
next
  fix t assume p: "getPath res header_teams_path = Inr t"
  from header_reads [OF p] obtain d h where "getProp res ''data'' = Inr d" "d \<noteq> Undefined"
    "d \<noteq> Null" "propOf d ''header'' = h" "h \<noteq> Undefined" "h \<noteq> Null" by blast
  moreover note p [unfolded header_teams_path_def]
  ultimately show "\<forall>(k, v) \<in> set (nhl_getPicks_fields res). \<exists>x. v = Inr x"
    by (simp add: nhl_getPicks_fields_def getProp_propOf mapR_def)
qed

lemma nba_getPicks_cases:
  "case getPath res header_teams_path of
     Inl err \<Rightarrow> nba_getPicks_result res = Inl TypeError
   | Inr t \<Rightarrow> projects (nba_getPicks_fields res) (nba_getPicks_result res)"
  unfolding nba_getPicks_result_def
proof (rule objLit_cases [where ?k0.0 = "''teams''"])
  show "distinct (map fst (nba_getPicks_fields res))"
    by (simp add: nba_getPicks_fields_def)
  show "(''teams'', getPath res header_teams_path) \<in> set (nba_getPicks_fields res)"
    by (simp add: nba_getPicks_fields_def header_teams_path_def)
  show "\<forall>(k, v) \<in> set (nba_getPicks_fields res). \<forall>err. v = Inl err \<longrightarrow> err = TypeError"
    by (auto simp: nba_getPicks_fields_def simp del: getPath.simps dest: field_errors)
next
  fix t assume p: "getPath res header_teams_path = Inr t"
  from header_reads [OF p] obtain d h where "getProp res ''data'' = Inr d" "d \<noteq> Undefined"
    "d \<noteq> Null" "propOf d ''header'' = h" "h \<noteq> Undefined" "h \<noteq> Null" by blast
  moreover note p [unfolded header_teams_path_def]
  ultimately show "\<forall>(k, v) \<in> set (nba_getPicks_fields res). \<exists>x. v = Inr x"
    by (simp add: nba_getPicks_fields_def getProp_propOf mapR_def)
qed

lemma nba_getPlayByPlay_cases:
  "case getPath res package_teams_path of
     Inl err \<Rightarrow> nba_getPlayByPlay_result res = Inl TypeError
   | Inr t \<Rightarrow> projects (nba_getPlayByPlay_fields res) (nba_getPlayByPlay_result res)"
  unfolding nba_getPlayByPlay_result_def
proof (rule objLit_cases [where ?k0.0 = "''teams''"])
  show "distinct (map fst (nba_getPlayByPlay_fields res))"
    by (simp add: nba_getPlayByPlay_fields_def)
  show "(''teams'', getPath res package_teams_path) \<in> set (nba_getPlayByPlay_fields res)"
    by (simp add: nba_getPlayByPlay_fields_def package_teams_path_def)
  show "\<forall>(k, v) \<in> set (nba_getPlayByPlay_fields res). \<forall>err. v = Inl err \<longrightarrow> err = TypeError"
    by (auto simp: nba_getPlayByPlay_fields_def simp del: getPath.simps dest: field_errors)
next
  fix t assume p: "getPath res package_teams_path = Inr t"
  from package_reads [OF p] obtain d g h where "getProp res ''data'' = Inr d" "d \<noteq> Undefined"
    "d \<noteq> Null" "propOf d ''gamepackageJSON'' = g" "g \<noteq> Undefined" "g \<noteq> Null"
    "propOf g ''header'' = h" "h \<noteq> Undefined" "h \<noteq> Null" by blast
  moreover note p [unfolded package_teams_path_def]
  ultimately show "\<forall>(k, v) \<in> set (nba_getPlayByPlay_fields res). \<exists>x. v = Inr x"
    by (simp add: nba_getPlayByPlay_fields_def getProp_propOf mapR_def)
qed

lemma nba_getSummary_cases:
  "case getPath res package_teams_path of
     Inl err \<Rightarrow> nba_getSummary_result res = Inl TypeError
   | Inr t \<Rightarrow> projects (nba_getSummary_fields res) (nba_getSummary_result res)"
  unfolding nba_getSummary_result_def
proof (rule objLit_cases [where ?k0.0 = "''teams''"])
  show "distinct (map fst (nba_getSummary_fields res))"
    by (simp add: nba_getSummary_fields_def)
  show "(''teams'', getPath res package_teams_path) \<in> set (nba_getSummary_fields res)"
    by (simp add: nba_getSummary_fields_def package_teams_path_def)
  show "\<forall>(k, v) \<in> set (nba_getSummary_fields res). \<forall>err. v = Inl err \<longrightarrow> err = TypeError"
    by (auto simp: nba_getSummary_fields_def simp del: getPath.simps dest: field_errors)
next
  fix t assume p: "getPath res package_teams_path = Inr t"
  from package_reads [OF p] obtain d g h where "getProp res ''data'' = Inr d" "d \<noteq> Undefined"
    "d \<noteq> Null" "propOf d ''gamepackageJSON'' = g" "g \<noteq> Undefined" "g \<noteq> Null"
    "propOf g ''header'' = h" "h \<noteq> Undefined" "h \<noteq> Null" by blast
  moreover note p [unfolded package_teams_path_def]
  ultimately show "\<forall>(k, v) \<in> set (nba_getSummary_fields res). \<exists>x. v = Inr x"
    by (simp add: nba_getSummary_fields_def getProp_propOf mapR_def)
qed

lemma replying_get: "axios_get (replying body) req =
   Inr (Obj [(''data'', body), (''status'', Num 200), (''statusText'', Str ''OK''),
             (''headers'', Obj []), (''config'', Obj []), (''request'', Obj [])])"
  by (simp add: axios_get_def replying_def mapR_def resObj_def)

lemma result_keys:
  "nhl_getPlayByPlay_result res = Inr r \<Longrightarrow> keysOf r =
     [''teams'', ''id'', ''plays'', ''onIce'', ''competitions'', ''season'', ''boxScore'',
      ''seasonSeries'', ''standings'']"
  "nba_getPlayByPlay_result res = Inr r \<Longrightarrow> keysOf r =
     [''teams'', ''id'', ''plays'', ''competitions'', ''season'', ''boxScore'', ''seasonSeries'',
      ''standings'']"
  "nhl_getSummary_result res = Inr r \<Longrightarrow> keysOf r =
     [''boxScore'', ''gameInfo'', ''header'', ''teams'', ''id'', ''plays'', ''onIce'', ''leaders'',
      ''competitions'', ''season'', ''seasonSeries'', ''standings'']"
  "nba_getSummary_result res = Inr r \<Longrightarrow> keysOf r =
     [''boxScore'', ''gameInfo'', ''header'', ''teams'', ''id'', ''plays'', ''winProbability'',
      ''leaders'', ''competitions'', ''season'', ''seasonSeries'', ''standings'']"
  "nhl_getPicks_result res = Inr r \<Longrightarrow> keysOf r =
     [''id'', ''gameInfo'', ''leaders'', ''header'', ''teams'', ''competitions'', ''pickcenter'',
      ''againstTheSpread'', ''odds'', ''seasonSeries'', ''season'', ''standings'']"
  "nba_getPicks_result res = Inr r \<Longrightarrow> keysOf r =
     [''id'', ''gameInfo'', ''leaders'', ''header'', ''teams'', ''competitions'',
      ''winProbability'', ''pickcenter'', ''againstTheSpread'', ''odds'', ''seasonSeries'',
      ''season'', ''standings'']"
  by (auto simp: nhl_getPlayByPlay_result_def nhl_getPlayByPlay_fields_def
        nba_getPlayByPlay_result_def nba_getPlayByPlay_fields_def
        nhl_getSummary_result_def nhl_getSummary_fields_def
        nba_getSummary_result_def nba_getSummary_fields_def
        nhl_getPicks_result_def nhl_getPicks_fields_def
        nba_getPicks_result_def nba_getPicks_fields_def
      simp del: getPath.simps dest!: objLit_keys)

lemma projects_field:
  "projects fs out \<Longrightarrow> (k, v) \<in> set fs \<Longrightarrow> \<exists>r. out = Inr r \<and> getProp r k = v"
  by (auto simp: projects_def)

lemma projects_Inr: "projects fs out \<Longrightarrow> \<exists>r. out = Inr r"
  by (auto simp: projects_def)

lemma parseInt_decimal: "parseInt (Str (show_nat n)) = Num (int n)"
  by (simp add: parseInt_def parseIntStr_show_nat)

lemma sample_paths:
  "getPath sample_response header_teams_path = Inr (Arr [] [])"
  "getPath sample_response package_teams_path = Inr (Arr [] [])"
  by (simp_all add: sample_response_def sample_header_def header_teams_path_def
        package_teams_path_def)

lemma update_frame:
  "getProp (Obj (AList.update k x b)) k = Inr x"
  "k' \<noteq> k \<Longrightarrow> getProp (Obj (AList.update k x b)) k' = getProp (Obj b) k'"
  "set (keysOf (Obj (AList.update k x b))) = insert k (set (keysOf (Obj b)))"
  by (simp_all add: update_conv' dom_update)

subsection \<open>Result keys\<close>

text \<open>
  The hockey summary has the key \<^verbatim>\<open>onIce\<close>, which the documented field list of the
  summary operation does not have: C1 fails as it is stated.
\<close>

theorem nhl_summary_onIce_counterexample:
  "mapR keysOf (nhl_getSummary
      (replying (Obj [(''header'', Obj [(''id'', Str ''401272446''),
                         (''competitions'', Arr [Obj [(''competitors'', Arr [] [])]] [])])]))
      (Num 401272446))
     = Inr [''boxScore'', ''gameInfo'', ''header'', ''teams'', ''id'', ''plays'', ''onIce'',
            ''leaders'', ''competitions'', ''season'', ''seasonSeries'', ''standings'']
   \<and> ''onIce'' \<notin> set documented_summary_fields"
  by (simp add: nhl_getSummary_def replying_get bindR_def nhl_getSummary_result_def
        nhl_getSummary_fields_def objLit_def mapR_def documented_summary_fields_def)

text \<open>
  C1, amended. For every response, the keys of a play-by-play, summary or picks result
  are among the documented fields of that operation, with \<^verbatim>\<open>onIce\<close> added for the two
  hockey operations that project it (play-by-play, where the table names it, and summary).
\<close>

theorem projected_keys_documented:
  "(\<forall>r. nhl_getPlayByPlay_result res = Inr r
        \<longrightarrow> set (keysOf r) \<subseteq> set documented_playByPlay_fields \<union> {''onIce''})
   \<and> (\<forall>r. nba_getPlayByPlay_result res = Inr r
        \<longrightarrow> set (keysOf r) \<subseteq> set documented_playByPlay_fields)
   \<and> (\<forall>r. nhl_getSummary_result res = Inr r
        \<longrightarrow> set (keysOf r) \<subseteq> set documented_summary_fields \<union> {''onIce''})
   \<and> (\<forall>r. nba_getSummary_result res = Inr r
        \<longrightarrow> set (keysOf r) \<subseteq> set documented_summary_fields)
   \<and> (\<forall>r. nhl_getPicks_result res = Inr r
        \<longrightarrow> set (keysOf r) \<subseteq> set documented_picks_fields)
   \<and> (\<forall>r. nba_getPicks_result res = Inr r
        \<longrightarrow> set (keysOf r) \<subseteq> set documented_picks_fields)"
proof -
  have a: "\<forall>r. nhl_getPlayByPlay_result res = Inr r
        \<longrightarrow> set (keysOf r) \<subseteq> set documented_playByPlay_fields \<union> {''onIce''}"
    by (auto simp: documented_playByPlay_fields_def dest!: result_keys(1))
  have b: "\<forall>r. nba_getPlayByPlay_result res = Inr r
        \<longrightarrow> set (keysOf r) \<subseteq> set documented_playByPlay_fields"
    by (auto simp: documented_playByPlay_fields_def dest!: result_keys(2))
  have c: "\<forall>r. nhl_getSummary_result res = Inr r
        \<longrightarrow> set (keysOf r) \<subseteq> set documented_summary_fields \<union> {''onIce''}"
    by (auto simp: documented_summary_fields_def dest!: result_keys(3))
  have d: "\<forall>r. nba_getSummary_result res = Inr r
        \<longrightarrow> set (keysOf r) \<subseteq> set documented_summary_fields"
    by (auto simp: documented_summary_fields_def dest!: result_keys(4))
  have e: "\<forall>r. nhl_getPicks_result res = Inr r
        \<longrightarrow> set (keysOf r) \<subseteq> set documented_picks_fields"
    by (auto simp: documented_picks_fields_def dest!: result_keys(5))
  have f: "\<forall>r. nba_getPicks_result res = Inr r
        \<longrightarrow> set (keysOf r) \<subseteq> set documented_picks_fields"
    by (auto simp: documented_picks_fields_def dest!: result_keys(6))
  from a b c d e f show ?thesis by blast
qed

theorem projected_keys_documented_witness:
  "(\<exists>r. nhl_getPlayByPlay_result sample_response = Inr r
        \<and> set (keysOf r) \<subseteq> set documented_playByPlay_fields \<union> {''onIce''})
   \<and> (\<exists>r. nba_getPlayByPlay_result sample_response = Inr r
        \<and> set (keysOf r) \<subseteq> set documented_playByPlay_fields)
   \<and> (\<exists>r. nhl_getSummary_result sample_response = Inr r
        \<and> set (keysOf r) \<subseteq> set documented_summary_fields \<union> {''onIce''})
   \<and> (\<exists>r. nba_getSummary_result sample_response = Inr r
        \<and> set (keysOf r) \<subseteq> set documented_summary_fields)
   \<and> (\<exists>r. nhl_getPicks_result sample_response = Inr r
        \<and> set (keysOf r) \<subseteq> set documented_picks_fields)
   \<and> (\<exists>r. nba_getPicks_result sample_response = Inr r
        \<and> set (keysOf r) \<subseteq> set documented_picks_fields)"
proof -
  have "\<exists>r. nhl_getPlayByPlay_result sample_response = Inr r"
    using nhl_getPlayByPlay_cases [of sample_response] by (simp add: sample_paths projects_Inr)
  moreover have "\<exists>r. nba_getPlayByPlay_result sample_response = Inr r"
    using nba_getPlayByPlay_cases [of sample_response] by (simp add: sample_paths projects_Inr)
  moreover have "\<exists>r. nhl_getSummary_result sample_response = Inr r"
    using nhl_getSummary_cases [of sample_response] by (simp add: sample_paths projects_Inr)
  moreover have "\<exists>r. nba_getSummary_result sample_response = Inr r"
    using nba_getSummary_cases [of sample_response] by (simp add: sample_paths projects_Inr)
  moreover have "\<exists>r. nhl_getPicks_result sample_response = Inr r"
    using nhl_getPicks_cases [of sample_response] by (simp add: sample_paths projects_Inr)
  moreover have "\<exists>r. nba_getPicks_result sample_response = Inr r"
    using nba_getPicks_cases [of sample_response] by (simp add: sample_paths projects_Inr)
  ultimately show ?thesis
    using projected_keys_documented [of sample_response] by metis
qed

subsection \<open>The id of a play-by-play result\<close>

text \<open>
  C2. The play-by-play id is claimed to be the header's id coerced to an integer, in each
  sport. The NBA function returns the header's id as it came: for the id string
  \<^verbatim>\<open>"401283399"\<close> the result holds that string, where \<^verbatim>\<open>parseInt\<close> gives the number.
\<close>

theorem nba_getPlayByPlay_id_uncoerced:
  "nba_getPlayByPlay
     (replying (Obj [(''gamepackageJSON'', Obj [(''header'', Obj [(''id'', Str ''401283399''),
                        (''competitions'', Arr [Obj [(''competitors'', Arr [] [])]] [])])])]))
     (Num 401283399)
   = Inr (Obj [(''teams'', Arr [] []), (''id'', Str ''401283399''), (''plays'', Undefined),
               (''competitions'', Arr [Obj [(''competitors'', Arr [] [])]] []),
               (''season'', Undefined), (''boxScore'', Undefined), (''seasonSeries'', Undefined),
               (''standings'', Undefined)])
   \<and> parseInt (Str ''401283399'') = Num 401283399"
  by (simp add: nba_getPlayByPlay_def replying_get bindR_def nba_getPlayByPlay_result_def
        nba_getPlayByPlay_fields_def objLit_def mapR_def parseInt_def parseIntStr_def
        isWhite_def digit_of_def)

text \<open>
  The NHL function does coerce: a header id that is a decimal numeral comes out as the
  number.
\<close>

lemma nhl_getPlayByPlay_id:
  assumes "getPath res header_teams_path = Inr t"
    and "getPath res [Field ''data'', Field ''header'', Field ''id''] = Inr (Str (show_nat n))"
  shows "\<exists>r. nhl_getPlayByPlay_result res = Inr r \<and> getProp r ''id'' = Inr (Num (int n))"
proof -
  from assms(2) have m: "(''id'', Inr (Num (int n))) \<in> set (nhl_getPlayByPlay_fields res)"
    by (simp add: nhl_getPlayByPlay_fields_def mapR_def parseInt_decimal del: getPath.simps)
  from nhl_getPlayByPlay_cases [of res] assms(1)
  have "projects (nhl_getPlayByPlay_fields res) (nhl_getPlayByPlay_result res)" by simp
  from projects_field [OF this m] show ?thesis .
qed

subsection \<open>Absent source paths\<close>

text \<open>
  A body without the header makes the play-by-play projection throw: C4 fails as it is
  stated.
\<close>

theorem projection_missing_header_counterexample:
  "nhl_getPlayByPlay (replying (Obj [])) (Num 401272446) = Inl TypeError"
  by (simp add: nhl_getPlayByPlay_def replying_get bindR_def nhl_getPlayByPlay_result_def
        nhl_getPlayByPlay_fields_def objLit_def mapR_def)

text \<open>
  C4, amended. A play-by-play, summary or picks projection returns exactly when its
  longest member chain can be read, that is when the header (under \<^verbatim>\<open>gamepackageJSON\<close>
  for the NBA play-by-play and summary), its competitions and their first element are
  neither \<^verbatim>\<open>undefined\<close> nor \<^verbatim>\<open>null\<close>. Then every field of the result is what its source
  path reads, \<^verbatim>\<open>undefined\<close> where the last property of the path is absent. Otherwise
  the projection throws a TypeError.
\<close>

theorem projection_cases:
  "(case getPath res header_teams_path of
      Inl err \<Rightarrow> nhl_getPlayByPlay_result res = Inl TypeError
    | Inr t \<Rightarrow> projects (nhl_getPlayByPlay_fields res) (nhl_getPlayByPlay_result res))
   \<and> (case getPath res header_teams_path of
      Inl err \<Rightarrow> nhl_getSummary_result res = Inl TypeError
    | Inr t \<Rightarrow> projects (nhl_getSummary_fields res) (nhl_getSummary_result res))
   \<and> (case getPath res header_teams_path of
      Inl err \<Rightarrow> nhl_getPicks_result res = Inl TypeError
    | Inr t \<Rightarrow> projects (nhl_getPicks_fields res) (nhl_getPicks_result res))
   \<and> (case getPath res package_teams_path of
      Inl err \<Rightarrow> nba_getPlayByPlay_result res = Inl TypeError
    | Inr t \<Rightarrow> projects (nba_getPlayByPlay_fields res) (nba_getPlayByPlay_result res))
   \<and> (case getPath res package_teams_path of
      Inl err \<Rightarrow> nba_getSummary_result res = Inl TypeError
    | Inr t \<Rightarrow> projects (nba_getSummary_fields res) (nba_getSummary_result res))
   \<and> (case getPath res header_teams_path of
      Inl err \<Rightarrow> nba_getPicks_result res = Inl TypeError
    | Inr t \<Rightarrow> projects (nba_getPicks_fields res) (nba_getPicks_result res))"
  using nhl_getPlayByPlay_cases [of res] nhl_getSummary_cases [of res] nhl_getPicks_cases [of res]
    nba_getPlayByPlay_cases [of res] nba_getSummary_cases [of res] nba_getPicks_cases [of res]
  by blast

theorem projection_cases_witness:
  "(\<exists>r. nhl_getPlayByPlay_result sample_response = Inr r \<and> getProp r ''plays'' = Inr Undefined)
   \<and> (\<exists>r. nhl_getSummary_result sample_response = Inr r \<and> getProp r ''leaders'' = Inr Undefined)
   \<and> (\<exists>r. nhl_getPicks_result sample_response = Inr r \<and> getProp r ''odds'' = Inr Undefined)
   \<and> (\<exists>r. nba_getPlayByPlay_result sample_response = Inr r \<and> getProp r ''plays'' = Inr Undefined)
   \<and> (\<exists>r. nba_getSummary_result sample_response = Inr r \<and> getProp r ''leaders'' = Inr Undefined)
   \<and> (\<exists>r. nba_getPicks_result sample_response = Inr r \<and> getProp r ''odds'' = Inr Undefined)"
proof -
  note c = projection_cases [of sample_response, unfolded sample_paths, simplified]
  have m1: "(''plays'', Inr Undefined) \<in> set (nhl_getPlayByPlay_fields sample_response)"
    by (simp add: nhl_getPlayByPlay_fields_def sample_response_def)
  have m2: "(''leaders'', Inr Undefined) \<in> set (nhl_getSummary_fields sample_response)"
    by (simp add: nhl_getSummary_fields_def sample_response_def)
  have m3: "(''odds'', Inr Undefined) \<in> set (nhl_getPicks_fields sample_response)"
    by (simp add: nhl_getPicks_fields_def sample_response_def)
  have m4: "(''plays'', Inr Undefined) \<in> set (nba_getPlayByPlay_fields sample_response)"
    by (simp add: nba_getPlayByPlay_fields_def sample_response_def)
  have m5: "(''leaders'', Inr Undefined) \<in> set (nba_getSummary_fields sample_response)"
    by (simp add: nba_getSummary_fields_def sample_response_def)
  have m6: "(''odds'', Inr Undefined) \<in> set (nba_getPicks_fields sample_response)"
    by (simp add: nba_getPicks_fields_def sample_response_def)
  from c m1 m2 m3 m4 m5 m6 show ?thesis
    by (blast dest: projects_field)
qed

text \<open>
  C8. A body that has the header with its competitions and no \<^verbatim>\<open>leaders\<close> is claimed
  to give a summary whose \<^verbatim>\<open>leaders\<close> is \<^verbatim>\<open>undefined\<close>, with no error. On such a body
  the NBA summary throws: it reads its teams, id, plays and season under
  \<^verbatim>\<open>gamepackageJSON\<close>, which this body does not have. The NHL summary and the NBA picks,
  which requests the same URL, read the header at the top of the body and return.
\<close>

theorem nba_getSummary_throws_on_top_level_header:
  "nba_getSummary
     (replying (Obj [(''header'', Obj [(''id'', Str ''401283399''),
                        (''competitions'', Arr [Obj [(''competitors'', Arr [] [])]] [])])]))
     (Num 401283399) = Inl TypeError
   \<and> nhl_getSummary
     (replying (Obj [(''header'', Obj [(''id'', Str ''401283399''),
                        (''competitions'', Arr [Obj [(''competitors'', Arr [] [])]] [])])]))
     (Num 401283399)
     = Inr (Obj [(''boxScore'', Undefined), (''gameInfo'', Undefined),
                 (''header'', Obj [(''id'', Str ''401283399''),
                        (''competitions'', Arr [Obj [(''competitors'', Arr [] [])]] [])]),
                 (''teams'', Arr [] []), (''id'', Num 401283399), (''plays'', Undefined),
                 (''onIce'', Undefined), (''leaders'', Undefined),
                 (''competitions'', Arr [Obj [(''competitors'', Arr [] [])]] []),
                 (''season'', Undefined), (''seasonSeries'', Undefined),
                 (''standings'', Undefined)])
   \<and> nba_getPicks
     (replying (Obj [(''header'', Obj [(''id'', Str ''401283399''),
                        (''competitions'', Arr [Obj [(''competitors'', Arr [] [])]] [])])]))
     (Num 401283399)
     = Inr (Obj [(''id'', Num 401283399), (''gameInfo'', Undefined), (''leaders'', Undefined),
                 (''header'', Obj [(''id'', Str ''401283399''),
                        (''competitions'', Arr [Obj [(''competitors'', Arr [] [])]] [])]),
                 (''teams'', Arr [] []),
                 (''competitions'', Arr [Obj [(''competitors'', Arr [] [])]] []),
                 (''winProbability'', Undefined), (''pickcenter'', Undefined),
                 (''againstTheSpread'', Undefined), (''odds'', Undefined),
                 (''seasonSeries'', Undefined), (''season'', Undefined),
                 (''standings'', Undefined)])"
  by (simp add: nba_getSummary_def nhl_getSummary_def nba_getPicks_def replying_get bindR_def
        nba_getSummary_result_def nba_getSummary_fields_def
        nhl_getSummary_result_def nhl_getSummary_fields_def
        nba_getPicks_result_def nba_getPicks_fields_def objLit_def mapR_def
        parseInt_def parseIntStr_def isWhite_def digit_of_def)

text \<open>
  Where each summary finds the header at the place it reads it (at the top of the body
  for hockey, under \<^verbatim>\<open>gamepackageJSON\<close> for basketball), a body without \<^verbatim>\<open>leaders\<close> gives
  a result whose \<^verbatim>\<open>leaders\<close> is \<^verbatim>\<open>undefined\<close>.
\<close>

lemma summary_without_leaders:
  "(transport e (nhl_getSummary_request gid) = Inr rsp \<and> data rsp = Obj kvs
      \<and> map_of kvs ''leaders'' = None
      \<and> getPath (Obj kvs) [Field ''header'', Field ''competitions'', Index 0,
                             Field ''competitors''] = Inr t
      \<longrightarrow> (\<exists>r. nhl_getSummary e gid = Inr r \<and> getProp r ''leaders'' = Inr Undefined))
   \<and> (transport e (nba_getSummary_request gid) = Inr rsp' \<and> data rsp' = Obj kvs'
      \<and> map_of kvs' ''leaders'' = None
      \<and> getPath (Obj kvs') [Field ''gamepackageJSON'', Field ''header'', Field ''competitions'',
                              Index 0, Field ''competitors''] = Inr t'
      \<longrightarrow> (\<exists>r. nba_getSummary e gid = Inr r \<and> getProp r ''leaders'' = Inr Undefined))"
proof (intro conjI impI)
  assume a: "transport e (nhl_getSummary_request gid) = Inr rsp \<and> data rsp = Obj kvs
      \<and> map_of kvs ''leaders'' = None
      \<and> getPath (Obj kvs) [Field ''header'', Field ''competitions'', Index 0,
                             Field ''competitors''] = Inr t"
  then have p: "getPath (resObj rsp) header_teams_path = Inr t"
    by (simp add: header_teams_path_def resObj_def)
  from a have m: "(''leaders'', Inr Undefined) \<in> set (nhl_getSummary_fields (resObj rsp))"
    by (simp add: nhl_getSummary_fields_def resObj_def)
  from nhl_getSummary_cases [of "resObj rsp"] p
  have "projects (nhl_getSummary_fields (resObj rsp)) (nhl_getSummary_result (resObj rsp))"
    by simp
  from projects_field [OF this m] a
  show "\<exists>r. nhl_getSummary e gid = Inr r \<and> getProp r ''leaders'' = Inr Undefined"
    by (simp add: nhl_getSummary_def axios_get_def bindR_def mapR_def)
next
  assume a: "transport e (nba_getSummary_request gid) = Inr rsp' \<and> data rsp' = Obj kvs'
      \<and> map_of kvs' ''leaders'' = None
      \<and> getPath (Obj kvs') [Field ''gamepackageJSON'', Field ''header'', Field ''competitions'',
                              Index 0, Field ''competitors''] = Inr t'"
  then have p: "getPath (resObj rsp') package_teams_path = Inr t'"
    by (simp add: package_teams_path_def resObj_def)
  from a have m: "(''leaders'', Inr Undefined) \<in> set (nba_getSummary_fields (resObj rsp'))"
    by (simp add: nba_getSummary_fields_def resObj_def)
  from nba_getSummary_cases [of "resObj rsp'"] p
  have "projects (nba_getSummary_fields (resObj rsp')) (nba_getSummary_result (resObj rsp'))"
    by simp
  from projects_field [OF this m] a
  show "\<exists>r. nba_getSummary e gid = Inr r \<and> getProp r ''leaders'' = Inr Undefined"
    by (simp add: nba_getSummary_def axios_get_def bindR_def mapR_def)
qed

subsection \<open>Box score\<close>

text \<open>
  With a box score and a header id in the body but no top-level \<^verbatim>\<open>gameId\<close>, the NBA box
  score gets the id \<^verbatim>\<open>undefined\<close>; with a top-level \<^verbatim>\<open>gameId\<close> string it gets that string.
  Neither is the game's number: C9 fails as it is stated.
\<close>

theorem nba_boxScore_id_counterexample:
  "nba_getBoxScore
     (replying (Obj [(''gamepackageJSON'', Obj [(''boxscore'', Obj [(''teams'', Arr [] [])]),
                        (''header'', Obj [(''id'', Str ''401283399'')])])]))
     (Num 401283399)
   = Inr (Obj [(''teams'', Arr [] []), (''id'', Undefined)])
   \<and> nba_getBoxScore
     (replying (Obj [(''gameId'', Str ''401283399''),
                     (''gamepackageJSON'', Obj [(''boxscore'', Obj [(''teams'', Arr [] [])]),
                        (''header'', Obj [(''id'', Str ''401283399'')])])]))
     (Num 401283399)
   = Inr (Obj [(''teams'', Arr [] []), (''id'', Str ''401283399'')])"
  by (simp add: nba_getBoxScore_def replying_get bindR_def nba_getBoxScore_result_def)

text \<open>
  C9, amended. When the body has a box-score object, the box-score operation returns
  that object with its \<^verbatim>\<open>id\<close> set and every other field as it was. In hockey, where the
  header id must be readable, the id is \<^verbatim>\<open>parseInt\<close> of the header id; in basketball it is
  what the top-level \<^verbatim>\<open>gameId\<close> of the body reads.
\<close>

theorem boxScore_frame:
  "(getPath res [Field ''data'', Field ''boxscore''] = Inr (Obj b)
      \<and> getPath res [Field ''data'', Field ''header'', Field ''id''] = Inr hid
    \<longrightarrow> nhl_getBoxScore_result res = Inr (Obj (AList.update ''id'' (parseInt hid) b))
      \<and> getProp (Obj (AList.update ''id'' (parseInt hid) b)) ''id'' = Inr (parseInt hid)
      \<and> (\<forall>k. k \<noteq> ''id''
            \<longrightarrow> getProp (Obj (AList.update ''id'' (parseInt hid) b)) k = getProp (Obj b) k)
      \<and> set (keysOf (Obj (AList.update ''id'' (parseInt hid) b)))
          = insert ''id'' (set (keysOf (Obj b))))
   \<and> (getPath res [Field ''data'', Field ''gamepackageJSON'', Field ''boxscore''] = Inr (Obj b')
    \<longrightarrow> (\<exists>g. getPath res [Field ''data'', Field ''gameId''] = Inr g
      \<and> nba_getBoxScore_result res = Inr (Obj (AList.update ''id'' g b'))
      \<and> getProp (Obj (AList.update ''id'' g b')) ''id'' = Inr g
      \<and> (\<forall>k. k \<noteq> ''id'' \<longrightarrow> getProp (Obj (AList.update ''id'' g b')) k = getProp (Obj b') k)
      \<and> set (keysOf (Obj (AList.update ''id'' g b'))) = insert ''id'' (set (keysOf (Obj b')))))"
proof (rule conjI; rule impI)
  assume a: "getPath res [Field ''data'', Field ''boxscore''] = Inr (Obj b)
      \<and> getPath res [Field ''data'', Field ''header'', Field ''id''] = Inr hid"
  then have r: "nhl_getBoxScore_result res = Inr (Obj (AList.update ''id'' (parseInt hid) b))"
    by (simp add: nhl_getBoxScore_result_def bindR_def mapR_def del: getPath.simps)
  show "nhl_getBoxScore_result res = Inr (Obj (AList.update ''id'' (parseInt hid) b))
      \<and> getProp (Obj (AList.update ''id'' (parseInt hid) b)) ''id'' = Inr (parseInt hid)
      \<and> (\<forall>k. k \<noteq> ''id''
            \<longrightarrow> getProp (Obj (AList.update ''id'' (parseInt hid) b)) k = getProp (Obj b) k)
      \<and> set (keysOf (Obj (AList.update ''id'' (parseInt hid) b)))
          = insert ''id'' (set (keysOf (Obj b)))"
    using r update_frame [where k = "''id''" and x = "parseInt hid" and b = b] by blast
next
  assume a: "getPath res [Field ''data'', Field ''gamepackageJSON'', Field ''boxscore''] = Inr (Obj b')"
  then obtain d where d: "getProp res ''data'' = Inr d" and dn: "d \<noteq> Undefined \<and> d \<noteq> Null"
    by (auto split: sum.splits dest: getProp_InrD)
  define g where "g = propOf d ''gameId''"
  from d dn have g: "getPath res [Field ''data'', Field ''gameId''] = Inr g"
    by (simp add: g_def getProp_propOf)
  from a g have r: "nba_getBoxScore_result res = Inr (Obj (AList.update ''id'' g b'))"
    by (simp add: nba_getBoxScore_result_def bindR_def del: getPath.simps)
  show "\<exists>g. getPath res [Field ''data'', Field ''gameId''] = Inr g
      \<and> nba_getBoxScore_result res = Inr (Obj (AList.update ''id'' g b'))
      \<and> getProp (Obj (AList.update ''id'' g b')) ''id'' = Inr g
      \<and> (\<forall>k. k \<noteq> ''id'' \<longrightarrow> getProp (Obj (AList.update ''id'' g b')) k = getProp (Obj b') k)
      \<and> set (keysOf (Obj (AList.update ''id'' g b'))) = insert ''id'' (set (keysOf (Obj b')))"
    using g r update_frame [where k = "''id''" and x = g and b = b'] by blast
qed

theorem boxScore_frame_witness:
  "nhl_getBoxScore_result
     (Obj [(''data'', Obj [(''boxscore'', Obj [(''teams'', Arr [] []), (''id'', Str ''old'')]),
                           (''header'', Obj [(''id'', Str ''401272446'')])])])
     = Inr (Obj [(''teams'', Arr [] []), (''id'', Num 401272446)])
   \<and> nba_getBoxScore_result
     (Obj [(''data'', Obj [(''gameId'', Str ''401283399''),
                           (''gamepackageJSON'', Obj [(''boxscore'', Obj [(''teams'', Arr [] [])])])])])
     = Inr (Obj [(''teams'', Arr [] []), (''id'', Str ''401283399'')])"
  using boxScore_frame
    [of "Obj [(''data'', Obj [(''boxscore'', Obj [(''teams'', Arr [] []), (''id'', Str ''old'')]),
                           (''header'', Obj [(''id'', Str ''401272446'')])])]"
        "[(''teams'', Arr [] []), (''id'', Str ''old'')]" "Str ''401272446''" "[]"]
    boxScore_frame
    [of "Obj [(''data'', Obj [(''gameId'', Str ''401283399''),
                           (''gamepackageJSON'', Obj [(''boxscore'', Obj [(''teams'', Arr [] [])])])])]"
        "[]" "Undefined" "[(''teams'', Arr [] [])]"]
  by (simp add: parseInt_def parseIntStr_def isWhite_def digit_of_def)

end
